theory Spec2Isabelle
  imports Complex_Main "HOL-Library.Sublist"
begin

section \<open>Python values: exceptions, numbers, text\<close>

text \<open>
  Exceptions are values. Every exception the server can meet is an instance of Python's
  \<^verbatim>\<open>Exception\<close>; the constructor records the class, the argument the message.
  \<^verbatim>\<open>LibraryError\<close> stands for whatever the scraping library raises (login, network,
  parse errors). What is not an \<^verbatim>\<open>Exception\<close> (\<^verbatim>\<open>KeyboardInterrupt\<close>,
  \<^verbatim>\<open>SystemExit\<close>), and so passes every handler of the server, is not modelled.
\<close>

datatype exn =
    ValueError string
  | OverflowError string
  | ZeroDivisionError string
  | KeyError string
  | TypeError string
  | AttributeError string
  | LibraryError string

text \<open>\<^verbatim>\<open>str(e)\<close>: the message; for a \<^verbatim>\<open>KeyError\<close> the repr of the key.\<close>

fun str_exn :: "exn \<Rightarrow> string" where
  "str_exn (ValueError m) = m"
| "str_exn (OverflowError m) = m"
| "str_exn (ZeroDivisionError m) = m"
| "str_exn (KeyError k) = [CHR 0x27] @ k @ [CHR 0x27]"
| "str_exn (TypeError m) = m"
| "str_exn (AttributeError m) = m"
| "str_exn (LibraryError m) = m"

definition bindE :: "exn + 'a \<Rightarrow> ('a \<Rightarrow> exn + 'b) \<Rightarrow> exn + 'b" where
  "bindE r f = (case r of Inl e \<Rightarrow> Inl e | Inr v \<Rightarrow> f v)"

text \<open>
  Numbers. The amounts the library hands over are Python ints and floats; they are
  modelled as exact rationals, so \<^verbatim>\<open>/\<close> is exact division. What Python adds to
  division is kept: a zero divisor raises. A float quotient can differ from the exact one
  in its last bit: where the exact number to print lies on a rounding tie of the format,
  or within that error of one, the code can print the neighbouring digit. What is proved
  of a printed number is proved of the exact one.
\<close>

type_synonym num = rat

definition py_div :: "num \<Rightarrow> num \<Rightarrow> exn + num" where
  "py_div a b = (if b = 0 then Inl (ZeroDivisionError ''division by zero'') else Inr (a / b))"

text \<open>
  Text. A \<^verbatim>\<open>str\<close> is modelled as the list of its characters, and the characters as
  ASCII; \<^verbatim>\<open>s.isascii()\<close> says it of a string. A string with another character is
  outside the model.
\<close>

definition isascii :: "string \<Rightarrow> bool" where
  "isascii s = list_all (\<lambda>c. (of_char c :: nat) < 128) s"

definition nl :: string where
  "nl = [CHR 0x0A]"

text \<open>The character of a decimal digit: \<^verbatim>\<open>chr(ord('0') + n)\<close>.\<close>

definition digit_char :: "nat \<Rightarrow> char" where
  "digit_char n = char_of (48 + n)"

text \<open>\<^verbatim>\<open>str(n)\<close> of a non-negative int.\<close>

fun show_nat :: "nat \<Rightarrow> string" where
  "show_nat n = (if n < 10 then [digit_char n] else show_nat (n div 10) @ [digit_char (n mod 10)])"

declare show_nat.simps [simp del]

text \<open>\<^verbatim>\<open>s.rjust(w, '0')\<close>.\<close>

definition zfill :: "nat \<Rightarrow> string \<Rightarrow> string" where
  "zfill w s = replicate (w - length s) (CHR ''0'') @ s"

text \<open>Rounding to the nearest integer, ties to the even one, as the \<^verbatim>\<open>f\<close> format does.\<close>

definition round_half_even :: "num \<Rightarrow> int" where
  "round_half_even x =
     (let f = \<lfloor>x\<rfloor>; r = x - of_int f
      in if r < 1 / 2 then f else if 1 / 2 < r then f + 1 else if even f then f else f + 1)"

text \<open>
  \<^verbatim>\<open>format(x, '.pf')\<close>: \<open>p\<close> digits after the point, a point only when \<open>p > 0\<close>,
  a minus sign for every negative \<open>x\<close> (Python prints \<^verbatim>\<open>-0\<close> for \<^verbatim>\<open>-0.3\<close>).
\<close>

definition format_f :: "nat \<Rightarrow> num \<Rightarrow> string" where
  "format_f p x =
     (let n = nat (round_half_even (\<bar>x\<bar> * 10 ^ p))
      in (if x < 0 then ''-'' else '''')
         @ show_nat (n div 10 ^ p)
         @ (if p = 0 then '''' else ''.'' @ zfill p (show_nat (n mod 10 ^ p))))"

text \<open>Substring test, \<^verbatim>\<open>needle in hay\<close>.\<close>

fun contains :: "string \<Rightarrow> string \<Rightarrow> bool" where
  "contains [] needle = (needle = [])"
| "contains (c # cs) needle = (prefix needle (c # cs) \<or> contains cs needle)"

text \<open>
  Dictionaries with string keys: \<^verbatim>\<open>d.get(k, default)\<close> and \<^verbatim>\<open>k in d\<close>. The
  nutrient dictionaries of the library hold numbers.
\<close>

type_synonym nutrients = "string \<rightharpoonup> num"

definition dict_get :: "(string \<rightharpoonup> 'v) \<Rightarrow> string \<Rightarrow> 'v \<Rightarrow> 'v" where
  "dict_get d k dflt = (case d k of None \<Rightarrow> dflt | Some v \<Rightarrow> v)"

definition key_in :: "string \<Rightarrow> (string \<rightharpoonup> 'v) \<Rightarrow> bool" where
  "key_in k d = (d k \<noteq> None)"


section \<open>Calendar dates\<close>

text \<open>
  Python's \<^verbatim>\<open>datetime.date\<close>: year, month and day of the proleptic Gregorian calendar,
  between 0001-01-01 and 9999-12-31, compared as the triple (year, month, day).
\<close>

record date =
  year :: nat
  month :: nat
  day :: nat

definition is_leap :: "nat \<Rightarrow> bool" where
  "is_leap y = (y mod 4 = 0 \<and> (y mod 100 \<noteq> 0 \<or> y mod 400 = 0))"

definition days_in_month :: "nat \<Rightarrow> nat \<Rightarrow> nat" where
  "days_in_month y m =
     (if m = 2 then (if is_leap y then 29 else 28)
      else if m = 4 \<or> m = 6 \<or> m = 9 \<or> m = 11 then 30 else 31)"

definition valid_date :: "date \<Rightarrow> bool" where
  "valid_date d =
     (1 \<le> year d \<and> year d \<le> 9999 \<and> 1 \<le> month d \<and> month d \<le> 12 \<and>
      1 \<le> day d \<and> day d \<le> days_in_month (year d) (month d))"

definition date_lt :: "date \<Rightarrow> date \<Rightarrow> bool" where
  "date_lt a b =
     (year a < year b \<or> (year a = year b \<and>
       (month a < month b \<or> (month a = month b \<and> day a < day b))))"

definition date_le :: "date \<Rightarrow> date \<Rightarrow> bool" where
  "date_le a b = (\<not> date_lt b a)"

text \<open>The constructor \<^verbatim>\<open>date(y, m, d)\<close>, which raises \<^verbatim>\<open>ValueError\<close> off the calendar.\<close>

definition mk_date :: "nat \<Rightarrow> nat \<Rightarrow> nat \<Rightarrow> exn + date" where
  "mk_date y m d =
     (if \<not> (1 \<le> y \<and> y \<le> 9999) then Inl (ValueError ''year is out of range'')
      else if \<not> (1 \<le> m \<and> m \<le> 12) then Inl (ValueError ''month must be in 1..12'')
      else if \<not> (1 \<le> d \<and> d \<le> days_in_month y m)
        then Inl (ValueError ''day is out of range for month'')
      else Inr \<lparr>year = y, month = m, day = d\<rparr>)"

text \<open>
  \<^verbatim>\<open>d + timedelta(days=1)\<close>: the next calendar day; past \<^verbatim>\<open>date.max\<close> (9999-12-31)
  CPython raises \<^verbatim>\<open>OverflowError("date value out of range")\<close>.
\<close>

definition add_one_day :: "date \<Rightarrow> exn + date" where
  "add_one_day d =
     (if day d < days_in_month (year d) (month d) then Inr (d\<lparr>day := day d + 1\<rparr>)
      else if month d < 12 then Inr \<lparr>year = year d, month = month d + 1, day = 1\<rparr>
      else if year d < 9999 then Inr \<lparr>year = year d + 1, month = 1, day = 1\<rparr>
      else Inl (OverflowError ''date value out of range''))"

text \<open>Python's \<^verbatim>\<open>date.max\<close>.\<close>

definition date_max :: date where
  "date_max = \<lparr>year = 9999, month = 12, day = 31\<rparr>"

definition month_name :: "nat \<Rightarrow> string" where
  "month_name m =
     (if m = 1 then ''January'' else if m = 2 then ''February'' else if m = 3 then ''March''
      else if m = 4 then ''April'' else if m = 5 then ''May'' else if m = 6 then ''June''
      else if m = 7 then ''July'' else if m = 8 then ''August''
      else if m = 9 then ''September'' else if m = 10 then ''October''
      else if m = 11 then ''November'' else ''December'')"

text \<open>
  \<^verbatim>\<open>d.strftime('%B %d, %Y')\<close> and \<^verbatim>\<open>d.strftime('%Y-%m-%d')\<close> in the C locale. Month
  and day are written with two digits. The year is written by the C library: as glibc
  does, without leading zeros (the year 999 as \<^verbatim>\<open>999\<close>); a library that pads writes
  four digits, and the two differ on the years below 1000 only.
\<close>

definition strftime_B_d_Y :: "date \<Rightarrow> string" where
  "strftime_B_d_Y d =
     month_name (month d) @ '' '' @ zfill 2 (show_nat (day d)) @ '', '' @ show_nat (year d)"

definition strftime_Y_m_d :: "date \<Rightarrow> string" where
  "strftime_Y_m_d d =
     show_nat (year d) @ ''-'' @ zfill 2 (show_nat (month d)) @ ''-''
       @ zfill 2 (show_nat (day d))"

subsection \<open>\<^verbatim>\<open>datetime.strptime(s, '%Y-%m-%d')\<close>\<close>

text \<open>
  The format compiles to the regular expression
  \<^verbatim>\<open>(?P<Y>\d\d\d\d)-(?P<m>1[0-2]|0[1-9]|[1-9])-(?P<d>3[0-1]|[1-2]\d|0[1-9]|[1-9]| [1-9])\<close>,
  matched at the start of the string. Each group is modelled by the list of its
  alternatives that match, in the order the backtracking matcher tries them, with the
  value read and the text left over. In a \<^verbatim>\<open>str\<close> pattern \<^verbatim>\<open>\d\<close> matches every
  Unicode decimal digit, and \<^verbatim>\<open>int\<close> reads it; of the ASCII characters those are
  \<^verbatim>\<open>0\<close> to \<^verbatim>\<open>9\<close>. So the matcher below is the parser on the strings with
  \<^verbatim>\<open>isascii\<close>, and on no others: the code accepts a date written with, say,
  full-width or Arabic-Indic digits, which the model does not represent.
\<close>

definition is_digit :: "char \<Rightarrow> bool" where
  "is_digit c = (48 \<le> (of_char c :: nat) \<and> (of_char c :: nat) \<le> 57)"

definition digit_val :: "char \<Rightarrow> nat" where
  "digit_val c = of_char c - 48"

definition in_range :: "char \<Rightarrow> nat \<Rightarrow> nat \<Rightarrow> bool" where
  "in_range c lo hi = (is_digit c \<and> lo \<le> digit_val c \<and> digit_val c \<le> hi)"

fun match_Y :: "string \<Rightarrow> (nat \<times> string) list" where
  "match_Y (a # b # c # d # rest) =
     (if is_digit a \<and> is_digit b \<and> is_digit c \<and> is_digit d
      then [(1000 * digit_val a + 100 * digit_val b + 10 * digit_val c + digit_val d, rest)]
      else [])"
| "match_Y _ = []"

fun match_dash :: "string \<Rightarrow> string list" where
  "match_dash (c # rest) = (if c = CHR ''-'' then [rest] else [])"
| "match_dash [] = []"

definition match_m :: "string \<Rightarrow> (nat \<times> string) list" where
  "match_m s =
     (case s of a # b # rest \<Rightarrow>
        (if a = CHR ''1'' \<and> in_range b 0 2 then [(10 + digit_val b, rest)] else [])
      | _ \<Rightarrow> [])
     @ (case s of a # b # rest \<Rightarrow>
        (if a = CHR ''0'' \<and> in_range b 1 9 then [(digit_val b, rest)] else [])
      | _ \<Rightarrow> [])
     @ (case s of a # rest \<Rightarrow> (if in_range a 1 9 then [(digit_val a, rest)] else [])
      | _ \<Rightarrow> [])"

definition match_d :: "string \<Rightarrow> (nat \<times> string) list" where
  "match_d s =
     (case s of a # b # rest \<Rightarrow>
        (if a = CHR ''3'' \<and> in_range b 0 1 then [(30 + digit_val b, rest)] else [])
      | _ \<Rightarrow> [])
     @ (case s of a # b # rest \<Rightarrow>
        (if in_range a 1 2 \<and> is_digit b then [(10 * digit_val a + digit_val b, rest)] else [])
      | _ \<Rightarrow> [])
     @ (case s of a # b # rest \<Rightarrow>
        (if a = CHR ''0'' \<and> in_range b 1 9 then [(digit_val b, rest)] else [])
      | _ \<Rightarrow> [])
     @ (case s of a # rest \<Rightarrow> (if in_range a 1 9 then [(digit_val a, rest)] else [])
      | _ \<Rightarrow> [])
     @ (case s of a # b # rest \<Rightarrow>
        (if a = CHR '' '' \<and> in_range b 1 9 then [(digit_val b, rest)] else [])
      | _ \<Rightarrow> [])"

text \<open>All the ways the whole expression matches a prefix of \<open>s\<close>; \<^verbatim>\<open>re.match\<close> takes the first.\<close>

definition regex_matches :: "string \<Rightarrow> (nat \<times> nat \<times> nat \<times> string) list" where
  "regex_matches s =
     concat (map (\<lambda>(y, r1).
       concat (map (\<lambda>r2.
         concat (map (\<lambda>(m, r3).
           concat (map (\<lambda>r4.
             map (\<lambda>(d, r5). (y, m, d, r5)) (match_d r4))
           (match_dash r3)))
         (match_m r2)))
       (match_dash r1)))
     (match_Y s))"

text \<open>
  No match, text left over after the match, and a year, month or day off the calendar
  all raise \<^verbatim>\<open>ValueError\<close> (the messages are shortened: their only reader drops them).
\<close>

definition strptime_Y_m_d :: "string \<Rightarrow> exn + date" where
  "strptime_Y_m_d s =
     (case regex_matches s of
        [] \<Rightarrow> Inl (ValueError ''time data does not match format'')
      | (y, m, d, rest) # _ \<Rightarrow>
          if rest \<noteq> [] then Inl (ValueError (''unconverted data remains: '' @ rest))
          else mk_date y m d)"

section \<open>The date parser (\<^verbatim>\<open>server.parse_date\<close>)\<close>

text \<open>
  \<^verbatim>\<open>date.today()\<close> is passed in. An absent or empty argument is falsy and gives today;
  a \<^verbatim>\<open>ValueError\<close> of \<^verbatim>\<open>strptime\<close> is replaced by the parser's own.
\<close>

definition parse_date :: "date \<Rightarrow> string option \<Rightarrow> exn + date" where
  "parse_date today_now date_str =
     (case date_str of
        None \<Rightarrow> Inr today_now
      | Some s \<Rightarrow>
          if s = [] then Inr today_now
          else (case strptime_Y_m_d s of
                  Inr d \<Rightarrow> Inr d
                | Inl e \<Rightarrow>
                    (case e of
                       ValueError _ \<Rightarrow>
                         Inl (ValueError (''Invalid date format: '' @ s @ ''. Use YYYY-MM-DD''))
                     | _ \<Rightarrow> Inl e)))"

section \<open>The data the library returns\<close>

text \<open>
  \<^verbatim>\<open>Entry\<close>, \<^verbatim>\<open>Meal\<close>, \<^verbatim>\<open>Exercise\<close> and \<^verbatim>\<open>Day\<close> of the scraping library, as plain
  records of the attributes the server reads. \<open>quantity\<close> holds the text that
  \<^verbatim>\<open>{entry.quantity}\<close> prints.
\<close>

record Entry =
  entry_name :: string
  quantity :: string
  unit :: string
  nutrition_information :: nutrients

record Meal =
  meal_name :: string
  meal_totals :: nutrients
  meal_entries :: "Entry list"

record Exercise =
  exercise_name :: string
  exercise_entries :: "Entry list"

record Day =
  date :: date
  totals :: nutrients
  goals :: nutrients
  water :: num
  meals :: "Meal list"
  exercises :: "Exercise list"
  day_notes :: string
  complete :: bool

section \<open>The account client (\<^verbatim>\<open>api_client.MyFitnessPalClient\<close>)\<close>

subsection \<open>Cookies from the environment\<close>

text \<open>What \<^verbatim>\<open>json.loads\<close> returns; an object is the list of its items, keys distinct.\<close>

datatype json =
    JNull
  | JBool bool
  | JNumber num
  | JString string
  | JArray "json list"
  | JObject "(string \<times> json) list"

text \<open>
  \<^verbatim>\<open>http.cookiejar.Cookie\<close>, with the attributes the loader computes; the others are the
  constants of the call (version 0, no port, no expiry, discard).
\<close>

record Cookie =
  cookie_name :: string
  cookie_value :: json
  cookie_domain :: json
  domain_initial_dot :: bool
  cookie_path :: json
  cookie_secure :: json

text \<open>
  \<^verbatim>\<open>x.items()\<close>, \<^verbatim>\<open>x[k]\<close>, \<^verbatim>\<open>x.get(k, d)\<close> and \<^verbatim>\<open>x.startswith(p)\<close> on a parsed
  value (messages abridged).
\<close>

definition py_items :: "json \<Rightarrow> exn + (string \<times> json) list" where
  "py_items j =
     (case j of JObject fs \<Rightarrow> Inr fs
      | _ \<Rightarrow> Inl (AttributeError ''object has no attribute items''))"

definition py_subscript :: "json \<Rightarrow> string \<Rightarrow> exn + json" where
  "py_subscript j k =
     (case j of
        JObject fs \<Rightarrow> (case map_of fs k of None \<Rightarrow> Inl (KeyError k) | Some v \<Rightarrow> Inr v)
      | JArray _ \<Rightarrow> Inl (TypeError ''list indices must be integers or slices, not str'')
      | JString _ \<Rightarrow> Inl (TypeError ''string indices must be integers, not str'')
      | _ \<Rightarrow> Inl (TypeError ''object is not subscriptable''))"

definition py_get :: "json \<Rightarrow> string \<Rightarrow> json \<Rightarrow> exn + json" where
  "py_get j k dflt =
     (case j of
        JObject fs \<Rightarrow> Inr (case map_of fs k of None \<Rightarrow> dflt | Some v \<Rightarrow> v)
      | _ \<Rightarrow> Inl (AttributeError ''object has no attribute get''))"

definition py_startswith :: "json \<Rightarrow> string \<Rightarrow> exn + bool" where
  "py_startswith j p =
     (case j of JString s \<Rightarrow> Inr (prefix p s)
      | _ \<Rightarrow> Inl (AttributeError ''object has no attribute startswith''))"

definition hashable :: "json \<Rightarrow> bool" where
  "hashable j = (case j of JArray _ \<Rightarrow> False | JObject _ \<Rightarrow> False | _ \<Rightarrow> True)"

text \<open>The call \<^verbatim>\<open>Cookie(...)\<close>, its arguments evaluated in the order written.\<close>

definition make_cookie :: "string \<Rightarrow> json \<Rightarrow> exn + Cookie" where
  "make_cookie name data =
     bindE (py_subscript data ''value'') (\<lambda>v.
     bindE (py_get data ''domain'' (JString ''.myfitnesspal.com'')) (\<lambda>dom.
     bindE (bindE (py_get data ''domain'' (JString [])) (\<lambda>d0. py_startswith d0 ''.'')) (\<lambda>dot.
     bindE (py_get data ''path'' (JString ''/'')) (\<lambda>p.
     bindE (py_get data ''secure'' (JBool False)) (\<lambda>sec.
       Inr \<lparr>cookie_name = name, cookie_value = v, cookie_domain = dom,
            domain_initial_dot = dot, cookie_path = p, cookie_secure = sec\<rparr>)))))"

text \<open>
  \<^verbatim>\<open>CookieJar.set_cookie\<close> files the cookie under domain, path and name, which must be
  hashable, and replaces a cookie filed under the same three. The jar is the list of its
  cookies; it is truthy when it holds one.
\<close>

definition set_cookie :: "Cookie list \<Rightarrow> Cookie \<Rightarrow> exn + Cookie list" where
  "set_cookie jar c =
     (if hashable (cookie_domain c) \<and> hashable (cookie_path c)
      then Inr (filter (\<lambda>c'. \<not> (cookie_domain c' = cookie_domain c \<and>
                                 cookie_path c' = cookie_path c \<and>
                                 cookie_name c' = cookie_name c)) jar @ [c])
      else Inl (TypeError ''unhashable type''))"

fun load_items :: "(string \<times> json) list \<Rightarrow> Cookie list \<Rightarrow> exn + Cookie list" where
  "load_items [] jar = Inr jar"
| "load_items ((name, data) # rest) jar =
     (case make_cookie name data of
        Inl e \<Rightarrow> Inl e
      | Inr cookie \<Rightarrow>
          (case set_cookie jar cookie of
             Inl e \<Rightarrow> Inl e
           | Inr jar' \<Rightarrow> load_items rest jar'))"

text \<open>
  What the process is given: the clock, the environment variable, \<^verbatim>\<open>json.loads\<close>, and
  the library's \<^verbatim>\<open>myfitnesspal.Client\<close>, called with a cookie jar or with none (then it
  reads the browser's cookies). A library client is its \<^verbatim>\<open>get_date\<close>.
\<close>

record world =
  today :: date
  MFP_COOKIES :: "string option"
  json_loads :: "string \<Rightarrow> exn + json"
  myfitnesspal_Client :: "Cookie list option \<Rightarrow> exn + (date \<Rightarrow> exn + Day)"

text \<open>
  \<^verbatim>\<open>_load_cookies_from_env\<close>: the jar or \<^verbatim>\<open>None\<close>, and the lines printed. The
  \<^verbatim>\<open>try\<close> covers parsing and building; its handler prints and returns \<^verbatim>\<open>None\<close>.
\<close>

definition load_cookies_from_env :: "world \<Rightarrow> (exn + Cookie list option) \<times> string list" where
  "load_cookies_from_env w =
     (case MFP_COOKIES w of
        None \<Rightarrow> (Inr None, [])
      | Some cookies_json \<Rightarrow>
          if cookies_json = [] then (Inr None, [])
          else (case bindE (json_loads w cookies_json) (\<lambda>cookie_dict.
                     bindE (py_items cookie_dict) (\<lambda>items. load_items items [])) of
                  Inr jar \<Rightarrow> (Inr (Some jar), [])
                | Inl e \<Rightarrow>
                    (Inr None,
                     [''Warning: Failed to load cookies from environment: '' @ str_exn e])))"

datatype MyFitnessPalClient = MyFitnessPalClient (lib_get_date: "date \<Rightarrow> exn + Day")

text \<open>\<^verbatim>\<open>__init__\<close>: the client or the exception, and the lines printed on the way.\<close>

definition MyFitnessPalClient_init :: "world \<Rightarrow> (exn + MyFitnessPalClient) \<times> string list" where
  "MyFitnessPalClient_init w =
     (case load_cookies_from_env w of (r, printed) \<Rightarrow>
        (bindE r (\<lambda>cookiejar.
           (case cookiejar of
              Some (c # cs) \<Rightarrow>
                bindE (myfitnesspal_Client w (Some (c # cs))) (\<lambda>lib. Inr (MyFitnessPalClient lib))
            | _ \<Rightarrow> bindE (myfitnesspal_Client w None) (\<lambda>lib. Inr (MyFitnessPalClient lib)))),
         printed))"

subsection \<open>Fetching\<close>

text \<open>
  The state of the server process: the module's \<^verbatim>\<open>_client\<close>, what was printed, and the
  dates asked of the remote service, in order.
\<close>

record server =
  client_global :: "MyFitnessPalClient option"
  stdout :: "string list"
  requests :: "date list"

text \<open>
  The process once it serves: the module has set \<^verbatim>\<open>_client = None\<close>, and \<^verbatim>\<open>main\<close> has
  started the protocol runtime; neither builds a client.
\<close>

definition fresh_server :: server where
  "fresh_server = \<lparr>client_global = None, stdout = [], requests = []\<rparr>"

definition get_day :: "MyFitnessPalClient \<Rightarrow> date \<Rightarrow> server \<Rightarrow> (exn + Day) \<times> server" where
  "get_day c target_date s =
     (lib_get_date c target_date, s\<lparr>requests := requests s @ [target_date]\<rparr>)"

text \<open>
  \<^verbatim>\<open>get_date_range\<close> is a generator. Its run is the list of the days it yields and the
  way it ends: exhausted (\<open>None\<close>) or by an exception. The \<^verbatim>\<open>try\<close> covers the fetch
  only; the step to the next date is outside it.
\<close>

function get_date_range ::
  "MyFitnessPalClient \<Rightarrow> date \<Rightarrow> date \<Rightarrow> server \<Rightarrow> (Day list \<times> exn option) \<times> server" where
  "get_date_range c current end_date s =
     (if date_le current end_date then
        (case get_day c current s of (r, s1) \<Rightarrow>
           (case add_one_day current of
              Inl e \<Rightarrow> (((case r of Inl _ \<Rightarrow> [] | Inr dy \<Rightarrow> [dy]), Some e), s1)
            | Inr nxt \<Rightarrow>
                (case get_date_range c nxt end_date s1 of ((rest, ending), s2) \<Rightarrow>
                   (((case r of Inl _ \<Rightarrow> [] | Inr dy \<Rightarrow> [dy]) @ rest, ending), s2))))
      else (([], None), s))"
  by pat_completeness auto
termination
  by (relation "measures
        [\<lambda>(c, current, end_date, s). year end_date + 1 - year current,
         \<lambda>(c, current, end_date, s). 12 - month current,
         \<lambda>(c, current, end_date, s). days_in_month (year current) (month current) - day current]")
     (auto simp: add_one_day_def date_le_def date_lt_def split: if_splits)

declare get_date_range.simps [simp del]

text \<open>\<^verbatim>\<open>get_client\<close>: the module's client, built at the first call that finds none.\<close>

definition get_client :: "world \<Rightarrow> server \<Rightarrow> (exn + MyFitnessPalClient) \<times> server" where
  "get_client w s =
     (case client_global s of
        Some c \<Rightarrow> (Inr c, s)
      | None \<Rightarrow>
          (case MyFitnessPalClient_init w of (r, printed) \<Rightarrow>
             (case r of
                Inl e \<Rightarrow> (Inl e, s\<lparr>stdout := stdout s @ printed\<rparr>)
              | Inr c \<Rightarrow> (Inr c, s\<lparr>client_global := Some c, stdout := stdout s @ printed\<rparr>))))"

section \<open>The tools (\<^verbatim>\<open>server.py\<close>)\<close>

datatype TextContent = TextContent (content_type: string) (content_text: string)

record ToolResult =
  content :: "TextContent list"
  structured_content :: "json option"

definition text_response :: "string \<Rightarrow> ToolResult" where
  "text_response t = \<lparr>content = [TextContent ''text'' t], structured_content = None\<rparr>"

text \<open>\<^verbatim>\<open>try: body except Exception as e: handler\<close>.\<close>

definition except_Exception :: "exn + 'a \<Rightarrow> (exn \<Rightarrow> exn + 'a) \<Rightarrow> exn + 'a" where
  "except_Exception body handler = (case body of Inl e \<Rightarrow> handler e | Inr v \<Rightarrow> Inr v)"

text \<open>
  The five single-day tools open with the same three statements: parse the date, get the
  client, fetch the day.
\<close>

definition fetch_target_day ::
  "world \<Rightarrow> string option \<Rightarrow> server \<Rightarrow> (exn + date \<times> Day) \<times> server" where
  "fetch_target_day w date_arg s =
     (case parse_date (today w) date_arg of
        Inl e \<Rightarrow> (Inl e, s)
      | Inr target_date \<Rightarrow>
          (case get_client w s of (rc, s1) \<Rightarrow>
             (case rc of
                Inl e \<Rightarrow> (Inl e, s1)
              | Inr client \<Rightarrow>
                  (case get_day client target_date s1 of (r, s2) \<Rightarrow>
                     (bindE r (\<lambda>dy. Inr (target_date, dy)), s2)))))"

subsection \<open>Daily summary\<close>

text \<open>The loop over the exercise entries: calories burned, minutes, number of entries.\<close>

definition exercise_step :: "Entry \<Rightarrow> num \<times> num \<times> nat \<Rightarrow> num \<times> num \<times> nat" where
  "exercise_step entry acc =
     (case acc of (total_exercise_calories, total_exercise_minutes, exercise_count) \<Rightarrow>
        (total_exercise_calories + dict_get (nutrition_information entry) ''calories burned'' 0,
         (case nutrition_information entry ''minutes'' of
            None \<Rightarrow> total_exercise_minutes
          | Some minutes \<Rightarrow>
              if minutes \<noteq> 0 then total_exercise_minutes + minutes else total_exercise_minutes),
         exercise_count + 1))"

definition exercise_totals :: "Exercise list \<Rightarrow> num \<times> num \<times> nat" where
  "exercise_totals exs =
     fold (\<lambda>exercise acc. fold exercise_step (exercise_entries exercise) acc) exs (0, 0, 0)"

definition daily_summary_text :: "date \<Rightarrow> Day \<Rightarrow> exn + string" where
  "daily_summary_text target_date dy =
     (let calories = dict_get (totals dy) ''calories'' 0;
          carbs = dict_get (totals dy) ''carbohydrates'' 0;
          fat = dict_get (totals dy) ''fat'' 0;
          protein = dict_get (totals dy) ''protein'' 0;
          calorie_goal = dict_get (goals dy) ''calories'' 0;
          carb_goal = dict_get (goals dy) ''carbohydrates'' 0;
          fat_goal = dict_get (goals dy) ''fat'' 0;
          protein_goal = dict_get (goals dy) ''protein'' 0;
          water_ml = water dy
      in bindE (py_div water_ml 29.5735) (\<lambda>water_oz.
         bindE (py_div water_ml 236.588) (\<lambda>water_cups.
           (case exercise_totals (exercises dy) of
              (total_exercise_calories, total_exercise_minutes, exercise_count) \<Rightarrow>
           Inr (''# Daily Summary for '' @ strftime_B_d_Y target_date @ nl
             @ nl
             @ ''## Calories'' @ nl
             @ ''- **Consumed**: '' @ format_f 0 calories @ '' kcal'' @ nl
             @ ''- **Goal**: '' @ format_f 0 calorie_goal @ '' kcal'' @ nl
             @ ''- **Remaining**: '' @ format_f 0 (calorie_goal - calories) @ '' kcal'' @ nl
             @ nl
             @ ''## Macronutrients'' @ nl
             @ ''- **Carbohydrates**: '' @ format_f 0 carbs @ ''g / '' @ format_f 0 carb_goal
               @ ''g'' @ nl
             @ ''- **Fat**: '' @ format_f 0 fat @ ''g / '' @ format_f 0 fat_goal @ ''g'' @ nl
             @ ''- **Protein**: '' @ format_f 0 protein @ ''g / '' @ format_f 0 protein_goal
               @ ''g'' @ nl
             @ nl
             @ ''## Exercise'' @ nl
             @ ''- **Activities**: '' @ show_nat exercise_count @ nl
             @ ''- **Duration**: '' @ format_f 0 total_exercise_minutes @ '' minutes'' @ nl
             @ ''- **Calories Burned**: '' @ format_f 0 total_exercise_calories @ '' kcal'' @ nl
             @ nl
             @ ''## Water Intake'' @ nl
             @ ''- **Amount**: '' @ format_f 0 water_oz @ '' oz ('' @ format_f 1 water_cups
               @ '' cups, '' @ format_f 0 water_ml @ '' ml)'' @ nl
             @ nl
             @ ''## Status'' @ nl
             @ ''- **Day Complete**: '' @ (if complete dy then ''Yes'' else ''No'') @ nl
             @ ''- **Meals Logged**: '' @ show_nat (length (meals dy)) @ nl)))))"

definition get_daily_summary ::
  "world \<Rightarrow> string option \<Rightarrow> server \<Rightarrow> (exn + ToolResult) \<times> server" where
  "get_daily_summary w date_arg s =
     (case fetch_target_day w date_arg s of (r, s') \<Rightarrow>
        (except_Exception
           (bindE r (\<lambda>(target_date, dy).
              bindE (daily_summary_text target_date dy) (\<lambda>output.
                Inr (text_response output))))
           (\<lambda>e. Inr (text_response (''Error retrieving daily summary: '' @ str_exn e))),
         s'))"

subsection \<open>Meals\<close>

definition entry_text :: "Entry \<Rightarrow> string" where
  "entry_text entry =
     ''- **'' @ entry_name entry @ ''**'' @ nl
     @ ''  - Serving: '' @ quantity entry @ '' '' @ unit entry @ nl
     @ ''  - Calories: '' @ format_f 0 (dict_get (nutrition_information entry) ''calories'' 0)
       @ '' kcal'' @ nl
     @ ''  - Macros: ''
     @ format_f 0 (dict_get (nutrition_information entry) ''carbohydrates'' 0) @ ''C / ''
     @ format_f 0 (dict_get (nutrition_information entry) ''fat'' 0) @ ''F / ''
     @ format_f 0 (dict_get (nutrition_information entry) ''protein'' 0) @ ''P'' @ nl"

definition meal_text :: "Meal \<Rightarrow> string" where
  "meal_text meal =
     ''## '' @ meal_name meal @ nl
     @ ''**Total**: '' @ format_f 0 (dict_get (meal_totals meal) ''calories'' 0) @ '' kcal''
     @ '' ('' @ format_f 0 (dict_get (meal_totals meal) ''carbohydrates'' 0) @ ''C / ''
       @ format_f 0 (dict_get (meal_totals meal) ''fat'' 0) @ ''F / ''
       @ format_f 0 (dict_get (meal_totals meal) ''protein'' 0) @ ''P)'' @ nl @ nl
     @ (if meal_entries meal \<noteq> []
        then fold (\<lambda>entry output. output @ entry_text entry) (meal_entries meal) [] @ nl
        else ''No foods logged in this meal.'' @ nl @ nl)"

definition daily_meals_text :: "date \<Rightarrow> Day \<Rightarrow> exn + string" where
  "daily_meals_text target_date dy =
     Inr (''# Meals for '' @ strftime_B_d_Y target_date @ nl @ nl
          @ (if meals dy = [] then ''No meals logged for this day.'' @ nl
             else fold (\<lambda>meal output. output @ meal_text meal) (meals dy) []))"

definition get_daily_meals ::
  "world \<Rightarrow> string option \<Rightarrow> server \<Rightarrow> (exn + ToolResult) \<times> server" where
  "get_daily_meals w date_arg s =
     (case fetch_target_day w date_arg s of (r, s') \<Rightarrow>
        (except_Exception
           (bindE r (\<lambda>(target_date, dy).
              bindE (daily_meals_text target_date dy) (\<lambda>output.
                Inr (text_response output))))
           (\<lambda>e. Inr (text_response (''Error retrieving meals: '' @ str_exn e))),
         s'))"

subsection \<open>Exercise\<close>

text \<open>One turn of the loop over all entries: the text so far, calories, minutes.\<close>

definition exercise_entry_step :: "Entry \<Rightarrow> string \<times> num \<times> num \<Rightarrow> string \<times> num \<times> num" where
  "exercise_entry_step entry acc =
     (case acc of (output, total_calories, total_minutes) \<Rightarrow>
        (let out1 = output @ ''- **'' @ entry_name entry @ ''**'' @ nl;
             minutes = nutrition_information entry ''minutes'';
             has_minutes = (case minutes of None \<Rightarrow> False | Some m \<Rightarrow> m \<noteq> 0);
             out2 = (if has_minutes
                     then out1 @ ''  - Duration: '' @ format_f 0 (the minutes) @ '' minutes'' @ nl
                     else out1);
             total_minutes' = (if has_minutes then total_minutes + the minutes else total_minutes);
             calories = dict_get (nutrition_information entry) ''calories burned'' 0;
             out3 = (if calories \<noteq> 0
                     then out2 @ ''  - Calories Burned: '' @ format_f 0 calories @ '' kcal'' @ nl
                     else out2);
             total_calories' = (if calories \<noteq> 0 then total_calories + calories else total_calories)
         in (out3 @ nl, total_calories', total_minutes')))"

definition daily_exercise_text :: "date \<Rightarrow> Day \<Rightarrow> exn + string" where
  "daily_exercise_text target_date dy =
     (let output = ''# Exercise for '' @ strftime_B_d_Y target_date @ nl @ nl
      in if exercises dy = [] then Inr (output @ ''No exercise logged for this day.'' @ nl)
         else (let all_entries = concat (map exercise_entries (exercises dy))
               in if all_entries = [] then Inr (output @ ''No exercise logged for this day.'' @ nl)
                  else (case fold exercise_entry_step all_entries (output, 0, 0) of
                          (out1, total_calories, total_minutes) \<Rightarrow>
                            Inr (out1 @ ''## Summary'' @ nl
                              @ (if 0 < total_minutes
                                 then ''- **Total Duration**: '' @ format_f 0 total_minutes
                                      @ '' minutes'' @ nl
                                 else [])
                              @ (if 0 < total_calories
                                 then ''- **Total Calories Burned**: '' @ format_f 0 total_calories
                                      @ '' kcal'' @ nl
                                 else [])))))"

definition get_daily_exercise ::
  "world \<Rightarrow> string option \<Rightarrow> server \<Rightarrow> (exn + ToolResult) \<times> server" where
  "get_daily_exercise w date_arg s =
     (case fetch_target_day w date_arg s of (r, s') \<Rightarrow>
        (except_Exception
           (bindE r (\<lambda>(target_date, dy).
              bindE (daily_exercise_text target_date dy) (\<lambda>output.
                Inr (text_response output))))
           (\<lambda>e. Inr (text_response (''Error retrieving exercise: '' @ str_exn e))),
         s'))"

subsection \<open>Macros and micronutrients\<close>

text \<open>The inner function \<^verbatim>\<open>format_nutrient\<close>, closed over the day's totals and goals.\<close>

definition format_nutrient ::
  "nutrients \<Rightarrow> nutrients \<Rightarrow> string \<Rightarrow> string \<Rightarrow> string \<Rightarrow> exn + string" where
  "format_nutrient tot gl name display_name unit_str =
     (let v = dict_get tot name 0;
          goal = dict_get gl name 0
      in if 0 < goal
         then bindE (py_div v goal) (\<lambda>q.
                Inr (''- **'' @ display_name @ ''**: '' @ format_f 0 v @ unit_str @ '' / ''
                     @ format_f 0 goal @ unit_str @ '' ('' @ format_f 0 (q * 100) @ ''%)'' @ nl))
         else Inr (''- **'' @ display_name @ ''**: '' @ format_f 0 v @ unit_str @ nl))"

text \<open>
  The body is a run of statements on \<^verbatim>\<open>output\<close>: \<^verbatim>\<open>output += text\<close>,
  \<^verbatim>\<open>output += call(...)\<close>, and either of them under an \<^verbatim>\<open>if\<close>.
\<close>

definition emit :: "string \<Rightarrow> string \<Rightarrow> exn + string" where
  "emit txt output = Inr (output @ txt)"

definition emit_result :: "exn + string \<Rightarrow> string \<Rightarrow> exn + string" where
  "emit_result r output = bindE r (\<lambda>txt. Inr (output @ txt))"

definition when_do :: "bool \<Rightarrow> (string \<Rightarrow> exn + string) \<Rightarrow> string \<Rightarrow> exn + string" where
  "when_do b stmt output = (if b then stmt output else Inr output)"

fun run_statements :: "(string \<Rightarrow> exn + string) list \<Rightarrow> string \<Rightarrow> exn + string" where
  "run_statements [] output = Inr output"
| "run_statements (stmt # stmts) output =
     (case stmt output of Inl e \<Rightarrow> Inl e | Inr output' \<Rightarrow> run_statements stmts output')"

definition daily_macros_text :: "date \<Rightarrow> Day \<Rightarrow> exn + string" where
  "daily_macros_text target_date dy =
     run_statements
       [emit (''# Macros & Nutrients for '' @ strftime_B_d_Y target_date @ nl @ nl),
        emit (''## Macronutrients'' @ nl),
        emit_result (format_nutrient (totals dy) (goals dy) ''calories'' ''Calories'' ''kcal''),
        emit_result (format_nutrient (totals dy) (goals dy) ''carbohydrates'' ''Carbohydrates'' ''g''),
        emit_result (format_nutrient (totals dy) (goals dy) ''protein'' ''Protein'' ''g''),
        emit_result (format_nutrient (totals dy) (goals dy) ''fat'' ''Fat'' ''g''),
        when_do (key_in ''saturated fat'' (totals dy))
          (emit (''  - Saturated: '' @ format_f 1 (dict_get (totals dy) ''saturated fat'' 0)
                 @ ''g'' @ nl)),
        when_do (key_in ''polyunsaturated fat'' (totals dy))
          (emit (''  - Polyunsaturated: ''
                 @ format_f 1 (dict_get (totals dy) ''polyunsaturated fat'' 0) @ ''g'' @ nl)),
        when_do (key_in ''monounsaturated fat'' (totals dy))
          (emit (''  - Monounsaturated: ''
                 @ format_f 1 (dict_get (totals dy) ''monounsaturated fat'' 0) @ ''g'' @ nl)),
        when_do (key_in ''trans fat'' (totals dy))
          (emit (''  - Trans: '' @ format_f 1 (dict_get (totals dy) ''trans fat'' 0)
                 @ ''g'' @ nl)),
        emit_result (format_nutrient (totals dy) (goals dy) ''fiber'' ''Fiber'' ''g''),
        emit_result (format_nutrient (totals dy) (goals dy) ''sugar'' ''Sugar'' ''g''),
        emit nl,
        emit (''## Micronutrients'' @ nl),
        when_do (key_in ''sodium'' (totals dy))
          (emit_result (format_nutrient (totals dy) (goals dy) ''sodium'' ''Sodium'' ''mg'')),
        when_do (key_in ''potassium'' (totals dy))
          (emit_result (format_nutrient (totals dy) (goals dy) ''potassium'' ''Potassium'' ''mg'')),
        when_do (key_in ''cholesterol'' (totals dy))
          (emit_result (format_nutrient (totals dy) (goals dy) ''cholesterol'' ''Cholesterol'' ''mg'')),
        when_do (key_in ''vitamin a'' (totals dy))
          (emit_result (format_nutrient (totals dy) (goals dy) ''vitamin a'' ''Vitamin A'' ''%'')),
        when_do (key_in ''vitamin c'' (totals dy))
          (emit_result (format_nutrient (totals dy) (goals dy) ''vitamin c'' ''Vitamin C'' ''%'')),
        when_do (key_in ''calcium'' (totals dy))
          (emit_result (format_nutrient (totals dy) (goals dy) ''calcium'' ''Calcium'' ''%'')),
        when_do (key_in ''iron'' (totals dy))
          (emit_result (format_nutrient (totals dy) (goals dy) ''iron'' ''Iron'' ''%''))]
       []"

definition get_daily_macros ::
  "world \<Rightarrow> string option \<Rightarrow> server \<Rightarrow> (exn + ToolResult) \<times> server" where
  "get_daily_macros w date_arg s =
     (case fetch_target_day w date_arg s of (r, s') \<Rightarrow>
        (except_Exception
           (bindE r (\<lambda>(target_date, dy).
              bindE (daily_macros_text target_date dy) (\<lambda>output.
                Inr (text_response output))))
           (\<lambda>e. Inr (text_response (''Error retrieving macros: '' @ str_exn e))),
         s'))"

subsection \<open>Water intake\<close>

definition water_intake_text :: "date \<Rightarrow> Day \<Rightarrow> exn + string" where
  "water_intake_text target_date dy =
     (let water_ml = water dy
      in bindE (py_div water_ml 29.5735) (\<lambda>water_oz.
         bindE (py_div water_ml 236.588) (\<lambda>water_cups.
           run_statements
             [emit (''# Water Intake for '' @ strftime_B_d_Y target_date @ nl @ nl),
              (\<lambda>output.
                 if 0 < water_ml
                 then emit (''**Amount**: '' @ format_f 0 water_oz @ '' oz (''
                            @ format_f 1 water_cups @ '' cups / '' @ format_f 0 water_ml
                            @ '' ml)'' @ nl) output
                 else emit (''No water intake logged for this day.'' @ nl) output),
              emit (nl @ ''*Recommended daily intake: 64 oz (8 cups / 2000 ml)*'' @ nl),
              when_do (0 < water_ml)
                (emit_result (bindE (py_div water_oz 64) (\<lambda>q.
                   Inr (''*Progress: '' @ format_f 0 (q * 100) @ ''% of recommended amount*''
                        @ nl))))]
             [])))"

definition get_water_intake ::
  "world \<Rightarrow> string option \<Rightarrow> server \<Rightarrow> (exn + ToolResult) \<times> server" where
  "get_water_intake w date_arg s =
     (case fetch_target_day w date_arg s of (r, s') \<Rightarrow>
        (except_Exception
           (bindE r (\<lambda>(target_date, dy).
              bindE (water_intake_text target_date dy) (\<lambda>output.
                Inr (text_response output))))
           (\<lambda>e. Inr (text_response (''Error retrieving water intake: '' @ str_exn e))),
         s'))"

subsection \<open>Date range summary\<close>

text \<open>The dictionary collected for each yielded day.\<close>

record DayData =
  d_date :: date
  d_calories :: num
  d_carbs :: num
  d_fat :: num
  d_protein :: num
  d_water_ml :: num
  d_complete :: bool
  d_num_meals :: nat
  d_num_exercises :: nat

definition collect_day :: "Day \<Rightarrow> DayData" where
  "collect_day dy =
     \<lparr>d_date = date dy,
      d_calories = dict_get (totals dy) ''calories'' 0,
      d_carbs = dict_get (totals dy) ''carbohydrates'' 0,
      d_fat = dict_get (totals dy) ''fat'' 0,
      d_protein = dict_get (totals dy) ''protein'' 0,
      d_water_ml = water dy,
      d_complete = complete dy,
      d_num_meals = length (meals dy),
      d_num_exercises = length (exercises dy)\<rparr>"

text \<open>\<^verbatim>\<open>sep.join(xs)\<close>.\<close>

fun join :: "string \<Rightarrow> string list \<Rightarrow> string" where
  "join sep [] = []"
| "join sep [x] = x"
| "join sep (x # y # ys) = x @ sep @ join sep (y # ys)"

text \<open>The status mark, byte for byte as the literal stands in the source file.\<close>

definition check_mark :: string where
  "check_mark = [CHR 0xC3, CHR 0xA2, CHR 0xC5, CHR 0x93, CHR 0xE2, CHR 0x80, CHR 0x9C]"

definition breakdown_line :: "DayData \<Rightarrow> exn + string" where
  "breakdown_line day_data =
     bindE (py_div (d_water_ml day_data) 29.5735) (\<lambda>water_oz.
       (let status = (if d_complete day_data then [check_mark] else [])
                     @ (if 0 < d_num_exercises day_data
                        then [show_nat (d_num_exercises day_data) @ '' exercises''] else [])
        in Inr (''- **'' @ strftime_Y_m_d (d_date day_data) @ ''**: ''
                @ format_f 0 (d_calories day_data) @ '' kcal, ''
                @ format_f 0 (d_carbs day_data) @ ''C/'' @ format_f 0 (d_fat day_data) @ ''F/''
                @ format_f 0 (d_protein day_data) @ ''P, ''
                @ format_f 0 water_oz @ '' oz water''
                @ (if status \<noteq> [] then '' ['' @ join '', '' status @ '']'' else [])
                @ nl)))"

definition date_range_summary_text :: "date \<Rightarrow> date \<Rightarrow> DayData list \<Rightarrow> exn + string" where
  "date_range_summary_text start end_d daily_data =
     (if daily_data = [] then Inr ''No data available for the specified date range.''
      else
       (let num_days = length daily_data
        in bindE (py_div (sum_list (map d_calories daily_data)) (of_nat num_days)) (\<lambda>avg_calories.
           bindE (py_div (sum_list (map d_carbs daily_data)) (of_nat num_days)) (\<lambda>avg_carbs.
           bindE (py_div (sum_list (map d_fat daily_data)) (of_nat num_days)) (\<lambda>avg_fat.
           bindE (py_div (sum_list (map d_protein daily_data)) (of_nat num_days)) (\<lambda>avg_protein.
           bindE (py_div (sum_list (map d_water_ml daily_data)) (of_nat num_days)) (\<lambda>avg_water_ml.
           bindE (py_div avg_water_ml 29.5735) (\<lambda>avg_water_oz.
           (let complete_days = length (filter d_complete daily_data);
                days_with_exercise = length (filter (\<lambda>d. 0 < d_num_exercises d) daily_data)
            in run_statements
                ([emit (''# Date Range Summary'' @ nl),
                  emit (''**'' @ strftime_B_d_Y start @ ''** to **'' @ strftime_B_d_Y end_d
                        @ ''**'' @ nl),
                  emit (''('' @ show_nat num_days @ '' days)'' @ nl @ nl),
                  emit (''## Daily Averages'' @ nl),
                  emit (''- **Calories**: '' @ format_f 0 avg_calories @ '' kcal/day'' @ nl),
                  emit (''- **Carbohydrates**: '' @ format_f 0 avg_carbs @ ''g/day'' @ nl),
                  emit (''- **Fat**: '' @ format_f 0 avg_fat @ ''g/day'' @ nl),
                  emit (''- **Protein**: '' @ format_f 0 avg_protein @ ''g/day'' @ nl),
                  emit (''- **Water**: '' @ format_f 0 avg_water_oz @ '' oz/day (''
                        @ format_f 0 avg_water_ml @ '' ml/day)'' @ nl @ nl),
                  emit (''## Tracking Stats'' @ nl),
                  emit_result (bindE (py_div (of_nat complete_days) (of_nat num_days)) (\<lambda>q.
                    Inr (''- **Days Completed**: '' @ show_nat complete_days @ ''/''
                         @ show_nat num_days @ '' ('' @ format_f 0 (q * 100) @ ''%)'' @ nl))),
                  emit_result (bindE (py_div (of_nat days_with_exercise) (of_nat num_days)) (\<lambda>q.
                    Inr (''- **Days with Exercise**: '' @ show_nat days_with_exercise @ ''/''
                         @ show_nat num_days @ '' ('' @ format_f 0 (q * 100) @ ''%)'' @ nl
                         @ nl))),
                  emit (''## Daily Breakdown'' @ nl)]
                 @ map (\<lambda>day_data. emit_result (breakdown_line day_data)) daily_data)
                [])))))))))"

text \<open>
  The tool. The \<^verbatim>\<open>for\<close> loop drains the generator; an exception that ends the
  generator leaves the loop and reaches the handler.
\<close>

definition date_range_summary_body ::
  "world \<Rightarrow> string \<Rightarrow> string \<Rightarrow> server \<Rightarrow> (exn + ToolResult) \<times> server" where
  "date_range_summary_body w start_date end_date s =
     (case parse_date (today w) (Some start_date) of
        Inl e \<Rightarrow> (Inl e, s)
      | Inr start \<Rightarrow>
          (case parse_date (today w) (Some end_date) of
             Inl e \<Rightarrow> (Inl e, s)
           | Inr end_d \<Rightarrow>
               if date_lt end_d start
               then (Inl (ValueError ''Start date must be before or equal to end date''), s)
               else
                (case get_client w s of (rc, s1) \<Rightarrow>
                   (case rc of
                      Inl e \<Rightarrow> (Inl e, s1)
                    | Inr client \<Rightarrow>
                        (case get_date_range client start end_d s1 of ((days, ending), s2) \<Rightarrow>
                           (case ending of
                              Some e \<Rightarrow> (Inl e, s2)
                            | None \<Rightarrow>
                                (bindE (date_range_summary_text start end_d (map collect_day days))
                                   (\<lambda>output. Inr (text_response output)), s2)))))))"

definition get_date_range_summary ::
  "world \<Rightarrow> string \<Rightarrow> string \<Rightarrow> server \<Rightarrow> (exn + ToolResult) \<times> server" where
  "get_date_range_summary w start_date end_date s =
     (case date_range_summary_body w start_date end_date s of (r, s') \<Rightarrow>
        (except_Exception r
           (\<lambda>e. Inr (text_response (''Error retrieving date range summary: '' @ str_exn e))),
         s'))"

subsection \<open>The registered tools\<close>

text \<open>
  The five tools registered with one date argument, each with the subject of its
  handler's message and its formatter; and the response the handlers build.
\<close>

definition single_day_tools ::
  "(string \<times> (world \<Rightarrow> string option \<Rightarrow> server \<Rightarrow> (exn + ToolResult) \<times> server)
      \<times> (date \<Rightarrow> Day \<Rightarrow> exn + string)) list" where
  "single_day_tools =
     [(''daily summary'', get_daily_summary, daily_summary_text),
      (''meals'', get_daily_meals, daily_meals_text),
      (''exercise'', get_daily_exercise, daily_exercise_text),
      (''macros'', get_daily_macros, daily_macros_text),
      (''water intake'', get_water_intake, water_intake_text)]"

definition error_response :: "string \<Rightarrow> exn \<Rightarrow> ToolResult" where
  "error_response subject e = text_response (''Error retrieving '' @ subject @ '': '' @ str_exn e)"

section \<open>The spec's words, as definitions\<close>

text \<open>
  The date pattern as the spec words it: four digits, a dash, two digits, a dash, two
  digits.
\<close>

definition strict_shape :: "string \<Rightarrow> bool" where
  "strict_shape s =
     (case s of
        [y1, y2, y3, y4, s1, m1, m2, s2, d1, d2] \<Rightarrow>
          is_digit y1 \<and> is_digit y2 \<and> is_digit y3 \<and> is_digit y4 \<and> s1 = CHR ''-'' \<and>
          is_digit m1 \<and> is_digit m2 \<and> s2 = CHR ''-'' \<and> is_digit d1 \<and> is_digit d2
      | _ \<Rightarrow> False)"

text \<open>
  The writings of a date that the parser accepts: the year in four digits; the month in
  two digits or, below 10, in one; the day in two digits or, below 10, in one digit or a
  space and one digit.
\<close>

definition month_forms :: "nat \<Rightarrow> string list" where
  "month_forms m = zfill 2 (show_nat m) # (if m < 10 then [show_nat m] else [])"

definition day_forms :: "nat \<Rightarrow> string list" where
  "day_forms d = zfill 2 (show_nat d) # (if d < 10 then [show_nat d, '' '' @ show_nat d] else [])"

definition date_forms :: "date \<Rightarrow> string list" where
  "date_forms dt =
     concat (map (\<lambda>mf. map (\<lambda>df. zfill 4 (show_nat (year dt)) @ ''-'' @ mf @ ''-'' @ df)
                           (day_forms (day dt)))
                 (month_forms (month dt)))"

definition all_exercise_entries :: "Day \<Rightarrow> Entry list" where
  "all_exercise_entries dy = concat (map exercise_entries (exercises dy))"

definition minutes_or_zero :: "Entry \<Rightarrow> num" where
  "minutes_or_zero entry =
     (case nutrition_information entry ''minutes'' of None \<Rightarrow> 0 | Some m \<Rightarrow> m)"

definition calories_burned :: "Entry \<Rightarrow> num" where
  "calories_burned entry =
     (case nutrition_information entry ''calories burned'' of None \<Rightarrow> 0 | Some c \<Rightarrow> c)"

text \<open>
  A nutrient line as the spec words it: value, goal and percent of goal when a goal above
  zero is present, else the bare value; a total that is absent counts as zero.
\<close>

definition nutrient_line :: "nutrients \<Rightarrow> nutrients \<Rightarrow> string \<Rightarrow> string \<Rightarrow> string \<Rightarrow> string" where
  "nutrient_line tot gl name display_name unit_str =
     (let v = (case tot name of None \<Rightarrow> 0 | Some x \<Rightarrow> x);
          bare = ''- **'' @ display_name @ ''**: '' @ format_f 0 v @ unit_str @ nl
      in case gl name of
           None \<Rightarrow> bare
         | Some g \<Rightarrow>
             if 0 < g
             then ''- **'' @ display_name @ ''**: '' @ format_f 0 v @ unit_str @ '' / ''
                  @ format_f 0 g @ unit_str @ '' ('' @ format_f 0 (v / g * 100) @ ''%)'' @ nl
             else bare)"

text \<open>The lines that exist only when their key is in the totals.\<close>

definition fat_detail_line :: "string \<Rightarrow> string \<Rightarrow> nutrients \<Rightarrow> string" where
  "fat_detail_line label key tot =
     (case tot key of
        None \<Rightarrow> []
      | Some x \<Rightarrow> ''  - '' @ label @ '': '' @ format_f 1 x @ ''g'' @ nl)"

definition micro_line :: "nutrients \<Rightarrow> nutrients \<Rightarrow> string \<Rightarrow> string \<Rightarrow> string \<Rightarrow> string" where
  "micro_line tot gl key display_name unit_str =
     (case tot key of
        None \<Rightarrow> []
      | Some x \<Rightarrow> nutrient_line tot gl key display_name unit_str)"

text \<open>The aggregates of the range summary: arithmetic mean and percentage of a count.\<close>

definition mean :: "num list \<Rightarrow> num" where
  "mean xs = sum_list xs / of_nat (length xs)"

definition percent_of :: "nat \<Rightarrow> nat \<Rightarrow> num" where
  "percent_of k n = of_nat k / of_nat n * 100"

definition breakdown_entry :: "DayData \<Rightarrow> string" where
  "breakdown_entry d =
     ''- **'' @ strftime_Y_m_d (d_date d) @ ''**: ''
     @ format_f 0 (d_calories d) @ '' kcal, ''
     @ format_f 0 (d_carbs d) @ ''C/'' @ format_f 0 (d_fat d) @ ''F/''
     @ format_f 0 (d_protein d) @ ''P, ''
     @ format_f 0 (d_water_ml d / 29.5735) @ '' oz water''
     @ (if d_complete d \<and> 0 < d_num_exercises d
        then '' ['' @ check_mark @ '', '' @ show_nat (d_num_exercises d) @ '' exercises]''
        else if d_complete d then '' ['' @ check_mark @ '']''
        else if 0 < d_num_exercises d
        then '' ['' @ show_nat (d_num_exercises d) @ '' exercises]''
        else [])
     @ nl"

text \<open>
  A parsed value has the structure of the cookie mapping when it is an object whose members
  are objects with the field \<^verbatim>\<open>value\<close>. The variable's text is malformed when it does
  not parse, or parses to a value of another structure.
\<close>

fun is_cookie_object :: "json \<Rightarrow> bool" where
  "is_cookie_object (JObject fs) = (''value'' \<in> fst ` set fs)"
| "is_cookie_object _ = False"

fun well_structured :: "json \<Rightarrow> bool" where
  "well_structured (JObject members) = list_all (\<lambda>(name, data). is_cookie_object data) members"
| "well_structured _ = False"

definition malformed :: "world \<Rightarrow> string \<Rightarrow> bool" where
  "malformed w cookies_json =
     (case json_loads w cookies_json of Inl _ \<Rightarrow> True | Inr j \<Rightarrow> \<not> well_structured j)"

section \<open>Sample data\<close>

definition march_15 :: date where
  "march_15 = \<lparr>year = 2024, month = 3, day = 15\<rparr>"

definition water_day_2000 :: Day where
  "water_day_2000 =
     \<lparr>date = march_15, totals = Map.empty, goals = Map.empty, water = 2000, meals = [],
      exercises = [], day_notes = [], complete = False\<rparr>"

definition jan_1 :: date where "jan_1 = \<lparr>year = 2024, month = 1, day = 1\<rparr>"
definition jan_2 :: date where "jan_2 = \<lparr>year = 2024, month = 1, day = 2\<rparr>"
definition jan_3 :: date where "jan_3 = \<lparr>year = 2024, month = 1, day = 3\<rparr>"

definition blank_day :: "date \<Rightarrow> Day" where
  "blank_day d =
     \<lparr>date = d, totals = Map.empty, goals = Map.empty, water = 0, meals = [],
      exercises = [], day_notes = [], complete = False\<rparr>"

definition flaky_client :: MyFitnessPalClient where
  "flaky_client =
     MyFitnessPalClient (\<lambda>d. if d = jan_2 then Inl (LibraryError ''timeout'') else Inr (blank_day d))"

definition summary_day :: Day where
  "summary_day =
     \<lparr>date = march_15,
      totals = map_of [(''calories'', 1800), (''carbohydrates'', 200), (''fat'', 60),
                       (''protein'', 90)],
      goals = map_of [(''calories'', 2000), (''carbohydrates'', 250), (''fat'', 67),
                      (''protein'', 100)],
      water = 1500,
      meals = [\<lparr>meal_name = ''Breakfast'', meal_totals = Map.empty, meal_entries = []\<rparr>,
               \<lparr>meal_name = ''Lunch'', meal_totals = Map.empty, meal_entries = []\<rparr>],
      exercises = [], day_notes = [], complete = False\<rparr>"

definition summary_client :: MyFitnessPalClient where
  "summary_client = MyFitnessPalClient (\<lambda>d. Inr summary_day)"

definition sample_world :: world where
  "sample_world =
     \<lparr>today = march_15, MFP_COOKIES = None,
      json_loads = (\<lambda>s. Inl (ValueError ''Expecting value'')),
      myfitnesspal_Client = (\<lambda>jar. Inr (\<lambda>d. Inr summary_day))\<rparr>"

definition summary_server :: server where
  "summary_server = \<lparr>client_global = Some summary_client, stdout = [], requests = []\<rparr>"

definition macro_day :: Day where
  "macro_day =
     \<lparr>date = march_15,
      totals = map_of [(''calories'', 1800), (''fat'', 60), (''saturated fat'', 0),
                       (''sodium'', 0)],
      goals = map_of [(''calories'', 2000), (''fat'', 0)],
      water = 0, meals = [], exercises = [], day_notes = [], complete = False\<rparr>"

definition cookie_world :: world where
  \<open>cookie_world =
     \<lparr>today = march_15, MFP_COOKIES = None,
      json_loads = (\<lambda>s. if s = ''{"a": {"value": "x"}}''
                         then Inr (JObject [(''a'', JObject [(''value'', JString ''x'')])])
                         else if s = ''["a"]'' then Inr (JArray [JString ''a''])
                         else Inl (ValueError ''Expecting value: line 1 column 1 (char 0)'')),
      myfitnesspal_Client = (\<lambda>jar. Inr (\<lambda>d. Inr summary_day))\<rparr>\<close>

definition locked_out_world :: world where
  "locked_out_world =
     \<lparr>today = march_15, MFP_COOKIES = None,
      json_loads = (\<lambda>s. Inl (ValueError ''Expecting value'')),
      myfitnesspal_Client = (\<lambda>jar. Inl (LibraryError ''not logged in''))\<rparr>"

chapter \<open>Properties\<close>

section \<open>Shared facts\<close>

lemma bindE_Inr [simp]: "bindE (Inr v) f = f v"
  by (simp add: bindE_def)

lemma bindE_Inl [simp]: "bindE (Inl e) f = Inl e"
  by (simp add: bindE_def)

lemma py_div_nonzero: "b \<noteq> 0 \<Longrightarrow> py_div a b = Inr (a / b)"
  by (simp add: py_div_def)

subsection \<open>Evaluating the number format\<close>

lemma of_char_digit_char: "k < 10 \<Longrightarrow> (of_char (digit_char k) :: nat) = 48 + k"
  by (simp add: digit_char_def)

lemma digit_char_simps:
  "digit_char 0 = CHR ''0''" "digit_char 1 = CHR ''1''" "digit_char 2 = CHR ''2''"
  "digit_char 3 = CHR ''3''" "digit_char 4 = CHR ''4''" "digit_char 5 = CHR ''5''"
  "digit_char 6 = CHR ''6''" "digit_char 7 = CHR ''7''" "digit_char 8 = CHR ''8''"
  "digit_char 9 = CHR ''9''" "digit_char (Suc 0) = CHR ''1''"
  by (simp_all add: digit_char_def of_char_eq_iff [where ?'a = nat, symmetric])

lemma round_half_even_eqI:
  assumes "of_int k - 1 / 2 < x" and "x < of_int k + 1 / 2"
  shows "round_half_even x = k"
proof (cases "x < of_int k")
  case True
  with assms have "\<lfloor>x\<rfloor> = k - 1"
    by (simp add: floor_eq_iff)
  with assms True show ?thesis
    by (simp add: round_half_even_def Let_def)
next
  case False
  with assms have "\<lfloor>x\<rfloor> = k"
    by (simp add: floor_eq_iff)
  with assms False show ?thesis
    by (simp add: round_half_even_def Let_def)
qed

lemma format_f_0_eval:
  assumes "0 \<le> x" and "of_nat n - 1 / 2 < x" and "x < of_nat n + 1 / 2" and "show_nat n = s"
  shows "format_f 0 x = s"
proof -
  have "round_half_even x = int n"
    using assms(2,3) by (intro round_half_even_eqI) simp_all
  with assms(1,4) show ?thesis
    by (simp add: format_f_def Let_def abs_if)
qed

lemma format_f_1_eval:
  assumes "0 \<le> x" and "of_nat n - 1 / 2 < x * 10" and "x * 10 < of_nat n + 1 / 2"
    and "show_nat (n div 10) @ ''.'' @ [digit_char (n mod 10)] = s"
  shows "format_f 1 x = s"
proof -
  have "round_half_even (x * 10) = int n"
    using assms(2,3) by (intro round_half_even_eqI) simp_all
  moreover have "show_nat (n mod 10) = [digit_char (n mod 10)]"
    by (simp add: show_nat.simps)
  ultimately show ?thesis
    using assms(1,4) by (simp add: format_f_def Let_def abs_if zfill_def)
qed

lemma strftime_march_15: "strftime_B_d_Y march_15 = ''March 15, 2024''"
  by (simp add: strftime_B_d_Y_def march_15_def month_name_def zfill_def show_nat.simps
      digit_char_simps)

subsection \<open>Digits\<close>

lemma is_digit_iff:
  "is_digit c \<longleftrightarrow> c \<in> set ''0123456789''"
proof -
  have "is_digit c \<longleftrightarrow> (of_char c :: nat) \<in> {48, 49, 50, 51, 52, 53, 54, 55, 56, 57}"
    unfolding is_digit_def insert_iff empty_iff by arith
  also have "\<dots> \<longleftrightarrow> (of_char c :: nat) \<in> of_char ` set ''0123456789''"
    by simp
  also have "\<dots> \<longleftrightarrow> c \<in> set ''0123456789''"
    by (rule inj_image_mem_iff) (simp add: inj_on_def)
  finally show ?thesis .
qed

lemma in_range_0_2: "in_range c 0 2 \<longleftrightarrow> c \<in> set ''012''"
  by (auto simp add: in_range_def is_digit_iff digit_val_def)

lemma in_range_0_1: "in_range c 0 1 \<longleftrightarrow> c \<in> set ''01''"
  by (auto simp add: in_range_def is_digit_iff digit_val_def)

lemma in_range_1_2: "in_range c 1 2 \<longleftrightarrow> c \<in> set ''12''"
  by (auto simp add: in_range_def is_digit_iff digit_val_def)

lemma in_range_1_9: "in_range c 1 9 \<longleftrightarrow> c \<in> set ''123456789''"
  by (auto simp add: in_range_def is_digit_iff digit_val_def)

lemma in_range_Suc:
  "in_range c 0 (Suc 0) \<longleftrightarrow> c \<in> set ''01''"
  "in_range c (Suc 0) 2 \<longleftrightarrow> c \<in> set ''12''"
  "in_range c (Suc 0) 9 \<longleftrightarrow> c \<in> set ''123456789''"
  using in_range_0_1 [of c] in_range_1_2 [of c] in_range_1_9 [of c] by simp_all

lemmas in_range_simps = in_range_0_2 in_range_0_1 in_range_1_2 in_range_1_9 in_range_Suc

lemma is_digit_digit_char: "k < 10 \<Longrightarrow> is_digit (digit_char k)"
  by (simp add: is_digit_def digit_char_def)

lemma digit_val_digit_char: "k < 10 \<Longrightarrow> digit_val (digit_char k) = k"
  by (simp add: digit_val_def digit_char_def)

lemma digit_char_digit_val: "is_digit c \<Longrightarrow> digit_char (digit_val c) = c"
  by (simp add: is_digit_def digit_char_def digit_val_def)

lemma digit_val_less: "is_digit c \<Longrightarrow> digit_val c < 10"
  by (auto simp add: is_digit_def digit_val_def)

lemma show_nat_1: "n < 10 \<Longrightarrow> show_nat n = [digit_char n]"
  by (simp add: show_nat.simps)

lemma show_nat_step: "10 \<le> n \<Longrightarrow> show_nat n = show_nat (n div 10) @ [digit_char (n mod 10)]"
  by (subst show_nat.simps) simp

lemma div_10_less: "n < 10 * k \<Longrightarrow> n div 10 < (k::nat)"
  by (simp add: less_mult_imp_div_less mult.commute)

lemma div_10_ge: "10 * k \<le> n \<Longrightarrow> (k::nat) \<le> n div 10"
  by (simp add: less_eq_div_iff_mult_less_eq mult.commute)

lemma replicate_small:
  "replicate 3 c = [c, c, c]" "replicate 2 c = [c, c]"
  by (simp_all add: numeral_3_eq_3 numeral_2_eq_2)

lemma zfill_4_show_nat:
  assumes "n < 10000"
  shows "zfill 4 (show_nat n) =
           [digit_char (n div 10 div 10 div 10), digit_char (n div 10 div 10 mod 10),
            digit_char (n div 10 mod 10), digit_char (n mod 10)]"
proof -
  consider "n < 10" | "10 \<le> n" "n < 100" | "100 \<le> n" "n < 1000" | "1000 \<le> n"
    by linarith
  then show ?thesis
  proof cases
    case 1
    then show ?thesis by (simp add: show_nat_1 zfill_def digit_char_simps replicate_small)
  next
    case 2
    then have "n div 10 < 10" by (intro div_10_less) simp
    with 2 show ?thesis
      by (simp add: show_nat_step show_nat_1 zfill_def digit_char_simps replicate_small)
  next
    case 3
    then have a: "n div 10 < 100" "10 \<le> n div 10"
      by (intro div_10_less div_10_ge; simp)+
    then have b: "n div 10 div 10 < 10" by (intro div_10_less) simp
    have "10 \<le> n" using 3 by simp
    with a b show ?thesis
      by (simp add: show_nat_step show_nat_1 zfill_def digit_char_simps replicate_small)
  next
    case 4
    then have a: "n div 10 < 1000" "100 \<le> n div 10"
      using assms by (intro div_10_less div_10_ge; simp)+
    then have b: "n div 10 div 10 < 100" "10 \<le> n div 10 div 10"
      by (intro div_10_less div_10_ge; simp)+
    then have c: "n div 10 div 10 div 10 < 10" by (intro div_10_less) simp
    have "10 \<le> n" "10 \<le> n div 10" using 4 a by simp_all
    with a b c show ?thesis
      by (simp add: show_nat_step show_nat_1 zfill_def)
  qed
qed

lemma zfill_2_show_nat:
  assumes "n < 100"
  shows "zfill 2 (show_nat n) = [digit_char (n div 10), digit_char (n mod 10)]"
proof (cases "n < 10")
  case True
  then show ?thesis by (simp add: show_nat_1 zfill_def digit_char_simps replicate_small)
next
  case False
  moreover have "n div 10 < 10" using assms by (intro div_10_less) simp
  ultimately show ?thesis
    by (simp add: show_nat_step show_nat_1 zfill_def)
qed

lemma digits_combine:
  "n = 10 * a1 + m0 \<Longrightarrow> a1 = 10 * a2 + m1 \<Longrightarrow> a2 = 10 * a3 + m2 \<Longrightarrow>
   1000 * a3 + 100 * m2 + 10 * m1 + m0 = (n::nat)"
  by simp

lemma match_Y_digits:
  assumes "a < 10" "b < 10" "c < 10" "d < 10"
  shows "match_Y (digit_char a # digit_char b # digit_char c # digit_char d # r) =
           [(1000 * a + 100 * b + 10 * c + d, r)]"
  using assms by (simp add: is_digit_digit_char digit_val_digit_char)

lemma match_Y_form:
  assumes "n < 10000"
  shows "match_Y (zfill 4 (show_nat n) @ r) = [(n, r)]"
proof -
  have "1000 * (n div 10 div 10 div 10) + 100 * (n div 10 div 10 mod 10)
          + 10 * (n div 10 mod 10) + n mod 10 = n"
    by (rule digits_combine) simp_all
  moreover have "n div 10 div 10 div 10 < 10"
    using assms by (intro div_10_less) simp
  ultimately show ?thesis
    using match_Y_digits [of "n div 10 div 10 div 10" "n div 10 div 10 mod 10"
        "n div 10 mod 10" "n mod 10" r]
    by (simp add: zfill_4_show_nat [OF assms])
qed

lemma div_mod_10_digit: "d < 10 \<Longrightarrow> (10 * q + d) div 10 = (q::nat) \<and> (10 * q + d) mod 10 = d"
  by simp

lemma match_Y_sound:
  assumes "(y, r) \<in> set (match_Y s)"
  shows "y < 10000 \<and> s = zfill 4 (show_nat y) @ r"
proof -
  from assms obtain a b c d where s: "s = a # b # c # d # r"
    and dg: "is_digit a" "is_digit b" "is_digit c" "is_digit d"
    and y: "y = 1000 * digit_val a + 100 * digit_val b + 10 * digit_val c + digit_val d"
    by (cases s rule: match_Y.cases) (auto split: if_splits)
  have lt: "digit_val a < 10" "digit_val b < 10" "digit_val c < 10" "digit_val d < 10"
    using dg by (simp_all add: digit_val_less)
  then have y4: "y < 10000" using y by simp
  have y1: "y = 10 * (100 * digit_val a + 10 * digit_val b + digit_val c) + digit_val d"
    using y by simp
  have d0: "y mod 10 = digit_val d"
    and q1: "y div 10 = 10 * (10 * digit_val a + digit_val b) + digit_val c"
    using div_mod_10_digit [OF lt(4), of "100 * digit_val a + 10 * digit_val b + digit_val c"]
    unfolding y1 by simp_all
  have d1: "y div 10 mod 10 = digit_val c"
    and q2: "y div 10 div 10 = 10 * digit_val a + digit_val b"
    using div_mod_10_digit [OF lt(3), of "10 * digit_val a + digit_val b"]
    unfolding q1 by simp_all
  have d2: "y div 10 div 10 mod 10 = digit_val b"
    and d3: "y div 10 div 10 div 10 = digit_val a"
    using div_mod_10_digit [OF lt(2), of "digit_val a"]
    unfolding q2 by simp_all
  show ?thesis
    using y4 dg by (simp add: zfill_4_show_nat s d0 d1 d2 d3 digit_char_digit_val)
qed


lemma month_forms_table:
  "month_forms (Suc 0) = [''01'', ''1'']" "month_forms 1 = [''01'', ''1'']"
  "month_forms 2 = [''02'', ''2'']" "month_forms 3 = [''03'', ''3'']"
  "month_forms 4 = [''04'', ''4'']" "month_forms 5 = [''05'', ''5'']"
  "month_forms 6 = [''06'', ''6'']" "month_forms 7 = [''07'', ''7'']"
  "month_forms 8 = [''08'', ''8'']" "month_forms 9 = [''09'', ''9'']"
  "month_forms 10 = [''10'']" "month_forms 11 = [''11'']"
  "month_forms 12 = [''12'']"
  by (simp_all add: month_forms_def zfill_def show_nat.simps digit_char_simps)

lemma day_forms_table:
  "day_forms (Suc 0) = [''01'', ''1'', '' 1'']" "day_forms 1 = [''01'', ''1'', '' 1'']"
  "day_forms 2 = [''02'', ''2'', '' 2'']" "day_forms 3 = [''03'', ''3'', '' 3'']"
  "day_forms 4 = [''04'', ''4'', '' 4'']" "day_forms 5 = [''05'', ''5'', '' 5'']"
  "day_forms 6 = [''06'', ''6'', '' 6'']" "day_forms 7 = [''07'', ''7'', '' 7'']"
  "day_forms 8 = [''08'', ''8'', '' 8'']" "day_forms 9 = [''09'', ''9'', '' 9'']"
  "day_forms 10 = [''10'']" "day_forms 11 = [''11'']"
  "day_forms 12 = [''12'']" "day_forms 13 = [''13'']"
  "day_forms 14 = [''14'']" "day_forms 15 = [''15'']"
  "day_forms 16 = [''16'']" "day_forms 17 = [''17'']"
  "day_forms 18 = [''18'']" "day_forms 19 = [''19'']"
  "day_forms 20 = [''20'']" "day_forms 21 = [''21'']"
  "day_forms 22 = [''22'']" "day_forms 23 = [''23'']"
  "day_forms 24 = [''24'']" "day_forms 25 = [''25'']"
  "day_forms 26 = [''26'']" "day_forms 27 = [''27'']"
  "day_forms 28 = [''28'']" "day_forms 29 = [''29'']"
  "day_forms 30 = [''30'']" "day_forms 31 = [''31'']"
  by (simp_all add: day_forms_def zfill_def show_nat.simps digit_char_simps)

lemma match_dash_iff: "r \<in> set (match_dash s) \<longleftrightarrow> s = CHR ''-'' # r"
  by (cases s) auto

lemma match_m_sound:
  assumes "(m, r) \<in> set (match_m s)"
  shows "1 \<le> m \<and> m \<le> 12 \<and> (\<exists>mf \<in> set (month_forms m). s = mf @ r)"
  using assms unfolding match_m_def
  by (auto split: list.splits if_splits simp add: in_range_simps digit_val_def month_forms_table)

lemma match_d_sound:
  assumes "(d, r) \<in> set (match_d s)"
  shows "1 \<le> d \<and> d \<le> 31 \<and> (\<exists>df \<in> set (day_forms d). s = df @ r)"
  using assms unfolding match_d_def
  by (auto split: list.splits if_splits
      simp add: in_range_simps is_digit_iff digit_val_def day_forms_table)


lemma upt_2_32:
  "[2..<32] = [2, 3, 4, 5, 6, 7, 8, 9, 10, 11, 12, 13, 14, 15, 16, 17, 18, 19, 20, 21,
               22, 23, 24, 25, 26, 27, 28, 29, 30, 31::nat]"
  by simp

lemma day_cases:
  assumes "1 \<le> d" "d \<le> 31"
  shows "d \<in> set [1, 2, 3, 4, 5, 6, 7, 8, 9, 10, 11, 12, 13, 14, 15, 16, 17, 18, 19, 20, 21, 22,
               23, 24, 25, 26, 27, 28, 29, 30, 31::nat]"
proof -
  have "d = 1 \<or> d \<in> set [2..<32]" using assms by (auto simp del: upt_rec_numeral)
  then show ?thesis unfolding upt_2_32 by auto
qed

lemma upt_2_13: "[2..<13] = [2, 3, 4, 5, 6, 7, 8, 9, 10, 11, 12::nat]"
  by simp

lemma month_cases:
  assumes "1 \<le> m" "m \<le> 12"
  shows "m \<in> set [1, 2, 3, 4, 5, 6, 7, 8, 9, 10, 11, 12::nat]"
proof -
  have "m = 1 \<or> m \<in> set [2..<13]" using assms by (auto simp del: upt_rec_numeral)
  then show ?thesis unfolding upt_2_13 by auto
qed

lemma match_m_then_dash:
  assumes "1 \<le> m" "m \<le> 12" "mf \<in> set (month_forms m)"
  shows "concat (map (\<lambda>(m', r3). concat (map (g m') (match_dash r3)))
                     (match_m (mf @ CHR ''-'' # r))) = g m r"
  using month_cases [OF assms(1,2)] assms(3)
  by (auto simp add: month_forms_table match_m_def in_range_def is_digit_def digit_val_def)

lemma match_d_form:
  assumes "1 \<le> d" "d \<le> 31" "df \<in> set (day_forms d)"
  shows "\<exists>rest. match_d df = (d, []) # rest"
  using day_cases [OF assms(1,2)] assms(3)
  by (auto simp add: day_forms_table match_d_def in_range_def is_digit_def digit_val_def)


lemma regex_matches_form:
  assumes v: "valid_date dt" and s: "s \<in> set (date_forms dt)"
  shows "\<exists>rest. regex_matches s = (year dt, month dt, day dt, []) # rest"
proof -
  from s obtain mf df where mf: "mf \<in> set (month_forms (month dt))"
    and df: "df \<in> set (day_forms (day dt))"
    and s_eq: "s = zfill 4 (show_nat (year dt)) @ CHR ''-'' # mf @ CHR ''-'' # df"
    by (auto simp add: date_forms_def)
  from v have y: "year dt < 10000" and m: "1 \<le> month dt" "month dt \<le> 12"
    and d: "1 \<le> day dt" "day dt \<le> 31"
    by (auto simp add: valid_date_def days_in_month_def split: if_splits)
  have "regex_matches s =
          concat (map (\<lambda>(m', r3). concat (map
              (\<lambda>r4. map (\<lambda>(d', r5). (year dt, m', d', r5)) (match_d r4)) (match_dash r3)))
            (match_m (mf @ CHR ''-'' # df)))"
    by (simp add: regex_matches_def s_eq match_Y_form [OF y])
  also have "\<dots> = map (\<lambda>(d', r5). (year dt, month dt, d', r5)) (match_d df)"
    by (rule match_m_then_dash [OF m mf])
  finally show ?thesis
    using match_d_form [OF d df] by auto
qed

lemma strptime_complete:
  assumes "valid_date dt" and "s \<in> set (date_forms dt)"
  shows "strptime_Y_m_d s = Inr dt"
proof -
  from regex_matches_form [OF assms] obtain rest
    where "regex_matches s = (year dt, month dt, day dt, []) # rest" ..
  moreover have "mk_date (year dt) (month dt) (day dt) = Inr dt"
    using assms(1) by (simp add: mk_date_def valid_date_def)
  ultimately show ?thesis by (simp add: strptime_Y_m_d_def)
qed

lemma regex_matches_sound:
  assumes "(y, m, d, r) \<in> set (regex_matches s)"
  shows "y < 10000 \<and> 1 \<le> m \<and> m \<le> 12 \<and> 1 \<le> d \<and> d \<le> 31 \<and>
         (\<exists>mf \<in> set (month_forms m). \<exists>df \<in> set (day_forms d).
            s = zfill 4 (show_nat y) @ CHR ''-'' # mf @ CHR ''-'' # df @ r)"
proof -
  from assms obtain r1 r2 r3 r4 where
    "(y, r1) \<in> set (match_Y s)" "r2 \<in> set (match_dash r1)" "(m, r3) \<in> set (match_m r2)"
    "r4 \<in> set (match_dash r3)" "(d, r) \<in> set (match_d r4)"
    by (auto simp add: regex_matches_def)
  then show ?thesis
    using match_Y_sound [of y r1 s] match_m_sound [of m r3 r2] match_d_sound [of d r r4]
    by (auto simp add: match_dash_iff)
qed

lemma mk_date_Inr: "mk_date y m d = Inr dt \<Longrightarrow> valid_date dt \<and> dt = \<lparr>year = y, month = m, day = d\<rparr>"
  by (auto simp add: mk_date_def valid_date_def split: if_splits)

lemma strptime_sound:
  assumes "strptime_Y_m_d s = Inr dt"
  shows "valid_date dt \<and> s \<in> set (date_forms dt)"
proof -
  from assms obtain y m d rest where rm: "regex_matches s = (y, m, d, []) # rest"
    and mk: "mk_date y m d = Inr dt"
    by (auto simp add: strptime_Y_m_d_def split: list.splits if_splits)
  from rm have "(y, m, d, []) \<in> set (regex_matches s)" by simp
  from regex_matches_sound [OF this] mk_date_Inr [OF mk] show ?thesis
    by (auto simp add: date_forms_def)
qed

lemma strptime_error: "strptime_Y_m_d s = Inl e \<Longrightarrow> \<exists>msg. e = ValueError msg"
  by (auto simp add: strptime_Y_m_d_def mk_date_def split: list.splits if_splits)

subsection \<open>Dates in order, and the ranged fetch\<close>

lemma date_lt_irrefl [simp]: "\<not> date_lt a a"
  by (simp add: date_lt_def)

lemma date_lt_trans: "date_lt a b \<Longrightarrow> date_lt b c \<Longrightarrow> date_lt a c"
  by (auto simp add: date_lt_def)

lemma date_le_refl [simp]: "date_le a a"
  by (simp add: date_le_def)

lemma date_le_trans: "date_le a b \<Longrightarrow> date_le b c \<Longrightarrow> date_le a c"
  by (auto simp add: date_le_def date_lt_def)

lemma date_lt_le_trans: "date_lt a b \<Longrightarrow> date_le b c \<Longrightarrow> date_lt a c"
  by (auto simp add: date_le_def date_lt_def)

lemma date_lt_imp_le: "date_lt a b \<Longrightarrow> date_le a b"
  by (auto simp add: date_le_def date_lt_def)

lemma date_le_antisym: "date_le a b \<Longrightarrow> date_le b a \<Longrightarrow> a = (b::date)"
  by (cases a, cases b) (auto simp add: date_le_def date_lt_def)

lemma date_le_iff: "date_le a b \<longleftrightarrow> date_lt a b \<or> a = (b::date)"
  by (cases a, cases b) (auto simp add: date_le_def date_lt_def)

lemma days_in_month_le_31: "days_in_month y m \<le> 31"
  by (simp add: days_in_month_def)

lemma add_one_day_next:
  assumes "valid_date d" and "add_one_day d = Inr n"
  shows "valid_date n" and "date_lt d n" and "\<And>x. valid_date x \<Longrightarrow> date_lt d x \<Longrightarrow> date_le n x"
proof -
  show "valid_date n"
    using assms by (auto simp add: add_one_day_def valid_date_def days_in_month_def split: if_splits)
  show "date_lt d n"
    using assms by (auto simp add: add_one_day_def date_lt_def split: if_splits)
  fix x assume x: "valid_date x" "date_lt d x"
  have dim: "days_in_month (year d) 12 = 31" by (simp add: days_in_month_def)
  from x(2) consider
      (y) "year d < year x"
    | (m) "year d = year x" "month d < month x"
    | (dd) "year d = year x" "month d = month x" "day d < day x"
    by (auto simp add: date_lt_def)
  then show "date_le n x"
  proof cases
    case y
    with assms x(1) show ?thesis
      by (auto simp add: add_one_day_def date_le_def date_lt_def valid_date_def split: if_splits)
  next
    case m
    with assms x(1) show ?thesis
      by (auto simp add: add_one_day_def date_le_def date_lt_def valid_date_def split: if_splits)
  next
    case dd
    with x(1) have "day d < days_in_month (year d) (month d)"
      by (simp add: valid_date_def)
    with assms(2) have "n = d\<lparr>day := day d + 1\<rparr>" by (simp add: add_one_day_def)
    with dd show ?thesis by (simp add: date_le_def date_lt_def)
  qed
qed

lemma add_one_day_overflow:
  assumes "valid_date d" and "add_one_day d = Inl e"
  shows "d = \<lparr>year = 9999, month = 12, day = 31\<rparr>"
    and "e = OverflowError ''date value out of range''"
    and "\<And>x. valid_date x \<Longrightarrow> date_le x d"
proof -
  have dim: "days_in_month (year d) 12 = 31" by (simp add: days_in_month_def)
  from assms have f: "day d = days_in_month (year d) (month d)" "month d = 12" "year d = 9999"
    by (auto simp add: add_one_day_def valid_date_def split: if_splits)
  with dim show "d = \<lparr>year = 9999, month = 12, day = 31\<rparr>" by (cases d) simp
  from assms show "e = OverflowError ''date value out of range''"
    by (auto simp add: add_one_day_def split: if_splits)
  fix x assume "valid_date x"
  with f dim days_in_month_le_31 [of "year x" "month x"] show "date_le x d"
    by (auto simp add: date_le_def date_lt_def valid_date_def)
qed


lemma get_date_range_stop:
  "\<not> date_le current end_date \<Longrightarrow> get_date_range c current end_date s = (([], None), s)"
  by (subst get_date_range.simps) simp

lemma get_date_range_last:
  assumes "date_le current end_date" and "add_one_day current = Inl e"
  shows "get_date_range c current end_date s =
           (((case lib_get_date c current of Inl _ \<Rightarrow> [] | Inr dy \<Rightarrow> [dy]), Some e),
            s\<lparr>requests := requests s @ [current]\<rparr>)"
  using assms by (subst get_date_range.simps) (simp add: get_day_def)

lemma get_date_range_step:
  assumes "date_le current end_date" and "add_one_day current = Inr nxt"
  shows "get_date_range c current end_date s =
           (case get_date_range c nxt end_date (s\<lparr>requests := requests s @ [current]\<rparr>) of
              ((rest, ending), s2) \<Rightarrow>
                (((case lib_get_date c current of Inl _ \<Rightarrow> [] | Inr dy \<Rightarrow> [dy]) @ rest, ending),
                 s2))"
  using assms by (subst get_date_range.simps) (simp add: get_day_def)

lemma get_date_range_run:
  assumes "valid_date current"
  shows "\<exists>ds. set ds = {d. valid_date d \<and> date_le current d \<and> date_le d end_date} \<and>
              sorted_wrt date_lt ds \<and>
              fst (fst (get_date_range c current end_date s)) =
                concat (map (\<lambda>d. case lib_get_date c d of Inl _ \<Rightarrow> [] | Inr dy \<Rightarrow> [dy]) ds) \<and>
              requests (snd (get_date_range c current end_date s)) = requests s @ ds"
  using assms
proof (induction c current end_date s rule: get_date_range.induct)
  case (1 c current end_date s)
  show ?case
  proof (cases "date_le current end_date")
    case False
    then have "{d. valid_date d \<and> date_le current d \<and> date_le d end_date} = {}"
      using date_le_trans by blast
    with False show ?thesis
      by (intro exI [of _ "[]"]) (simp add: get_date_range_stop)
  next
    case True
    show ?thesis
    proof (cases "add_one_day current")
      case (Inl e)
      from add_one_day_overflow(3) [OF "1.prems" Inl]
      have "{d. valid_date d \<and> date_le current d \<and> date_le d end_date} = {current}"
        using True "1.prems" date_le_antisym by blast
      then show ?thesis
        by (intro exI [of _ "[current]"]) (simp add: get_date_range_last [OF True Inl])
    next
      case (Inr nxt)
      note nx = add_one_day_next [OF "1.prems" Inr]
      have gd: "(lib_get_date c current, s\<lparr>requests := requests s @ [current]\<rparr>) =
                  get_day c current s"
        by (simp add: get_day_def)
      from "1.IH" [OF True gd Inr nx(1)] obtain ds where
        ds: "set ds = {d. valid_date d \<and> date_le nxt d \<and> date_le d end_date}"
          "sorted_wrt date_lt ds"
          "fst (fst (get_date_range c nxt end_date (s\<lparr>requests := requests s @ [current]\<rparr>))) =
             concat (map (\<lambda>d. case lib_get_date c d of Inl _ \<Rightarrow> [] | Inr dy \<Rightarrow> [dy]) ds)"
          "requests (snd (get_date_range c nxt end_date
              (s\<lparr>requests := requests s @ [current]\<rparr>))) = (requests s @ [current]) @ ds"
        by auto
      have set_eq: "{d. valid_date d \<and> date_le current d \<and> date_le d end_date} =
                    insert current {d. valid_date d \<and> date_le nxt d \<and> date_le d end_date}"
      proof (intro set_eqI iffI)
        fix x assume "x \<in> {d. valid_date d \<and> date_le current d \<and> date_le d end_date}"
        then have x: "valid_date x" "date_le current x" "date_le x end_date" by auto
        show "x \<in> insert current {d. valid_date d \<and> date_le nxt d \<and> date_le d end_date}"
        proof (cases "x = current")
          case False
          with x(2) have "date_lt current x" by (simp add: date_le_iff)
          with nx(3) x show ?thesis by simp
        qed simp
      next
        fix x assume "x \<in> insert current {d. valid_date d \<and> date_le nxt d \<and> date_le d end_date}"
        then show "x \<in> {d. valid_date d \<and> date_le current d \<and> date_le d end_date}"
          using "1.prems" True nx(2) date_lt_le_trans date_lt_imp_le by auto
      qed
      have "\<forall>d \<in> set ds. date_lt current d"
        using ds(1) nx(2) date_lt_le_trans by auto
      moreover obtain rest ending s2 where
        g: "get_date_range c nxt end_date (s\<lparr>requests := requests s @ [current]\<rparr>) =
              ((rest, ending), s2)"
        by (metis surj_pair)
      ultimately show ?thesis
        using ds set_eq
        by (intro exI [of _ "current # ds"]) (simp add: get_date_range_step [OF True Inr])
    qed
  qed
qed


lemma get_date_range_ending:
  assumes "valid_date current" and "valid_date end_date" and "date_le current end_date"
  shows "snd (fst (get_date_range c current end_date s)) =
           (if end_date = \<lparr>year = 9999, month = 12, day = 31\<rparr>
            then Some (OverflowError ''date value out of range'') else None)"
  using assms
proof (induction c current end_date s rule: get_date_range.induct)
  case (1 c current end_date s)
  note le = "1.prems"(3)
  show ?case
  proof (cases "add_one_day current")
    case (Inl e)
    note ov = add_one_day_overflow [OF "1.prems"(1) Inl]
    from ov(3) [OF "1.prems"(2)] le have "end_date = current" by (rule date_le_antisym)
    moreover have "snd (fst (get_date_range c current end_date s)) = Some e"
      by (simp add: get_date_range_last [OF le Inl])
    ultimately show ?thesis
      using ov(1,2) by simp
  next
    case (Inr nxt)
    note nx = add_one_day_next [OF "1.prems"(1) Inr]
    have gd: "(lib_get_date c current, s\<lparr>requests := requests s @ [current]\<rparr>) =
                get_day c current s"
      by (simp add: get_day_def)
    obtain rest ending s2 where
      g: "get_date_range c nxt end_date (s\<lparr>requests := requests s @ [current]\<rparr>) =
            ((rest, ending), s2)"
      by (metis surj_pair)
    show ?thesis
    proof (cases "date_le nxt end_date")
      case True
      from "1.IH" [OF le gd Inr nx(1) "1.prems"(2) True] g show ?thesis
        by (simp add: get_date_range_step [OF le Inr])
    next
      case False
      have "end_date = current"
      proof (rule ccontr)
        assume "end_date \<noteq> current"
        with le have "date_lt current end_date" by (auto simp add: date_le_iff)
        from nx(3) [OF "1.prems"(2) this] False show False by simp
      qed
      moreover have "current \<noteq> \<lparr>year = 9999, month = 12, day = 31\<rparr>"
        using Inr by (auto simp add: add_one_day_def days_in_month_def)
      moreover have "snd (fst (get_date_range c current end_date s)) = None"
        using g False by (simp add: get_date_range_step [OF le Inr] get_date_range_stop)
      ultimately show ?thesis by simp
    qed
  qed
qed

lemma get_client_cached: "client_global s = Some c \<Longrightarrow> get_client w s = (Inr c, s)"
  by (simp add: get_client_def)

lemma fetch_target_day_ok:
  assumes "parse_date (today w) a = Inr d" and "client_global s = Some c"
    and "lib_get_date c d = Inr dy"
  shows "fetch_target_day w a s = (Inr (d, dy), s\<lparr>requests := requests s @ [d]\<rparr>)"
  using assms by (simp add: fetch_target_day_def get_client_cached get_day_def)

lemma contains_self_append: "contains (n @ q) n"
proof (cases "n @ q")
  case Nil
  then show ?thesis by simp
next
  case (Cons a list)
  have "prefix n (n @ q)" by simp
  with Cons show ?thesis by simp
qed

lemma contains_append_right: "contains b n \<Longrightarrow> contains (a @ b) n"
  by (induction a) (auto simp add: contains_self_append intro: prefix_order.trans)

lemma contains_append_mid: "contains (p @ n @ q) n"
  by (rule contains_append_right) (rule contains_self_append)

lemma fold_exercise_step:
  "fold exercise_step es (a, b, n) =
     (a + sum_list (map calories_burned es), b + sum_list (map minutes_or_zero es),
      n + length es)"
  by (induction es arbitrary: a b n)
     (auto simp add: exercise_step_def calories_burned_def minutes_or_zero_def dict_get_def
       split: option.splits)

lemma fold_fold_concat:
  "fold (\<lambda>x acc. fold f (g x) acc) xs acc = fold f (concat (map g xs)) acc"
  by (induction xs arbitrary: acc) simp_all

lemma exercise_totals_sums:
  "exercise_totals (exercises dy) =
     (sum_list (map calories_burned (all_exercise_entries dy)),
      sum_list (map minutes_or_zero (all_exercise_entries dy)),
      length (all_exercise_entries dy))"
  by (simp add: exercise_totals_def fold_fold_concat fold_exercise_step all_exercise_entries_def)

lemma daily_summary_text_eq:
  "daily_summary_text target dy =
     Inr (''# Daily Summary for '' @ strftime_B_d_Y target @ nl
          @ nl
          @ ''## Calories'' @ nl
          @ ''- **Consumed**: '' @ format_f 0 (dict_get (totals dy) ''calories'' 0) @ '' kcal'' @ nl
          @ ''- **Goal**: '' @ format_f 0 (dict_get (goals dy) ''calories'' 0) @ '' kcal'' @ nl
          @ ''- **Remaining**: ''
            @ format_f 0 (dict_get (goals dy) ''calories'' 0 - dict_get (totals dy) ''calories'' 0)
            @ '' kcal'' @ nl
          @ nl
          @ ''## Macronutrients'' @ nl
          @ ''- **Carbohydrates**: '' @ format_f 0 (dict_get (totals dy) ''carbohydrates'' 0)
            @ ''g / '' @ format_f 0 (dict_get (goals dy) ''carbohydrates'' 0) @ ''g'' @ nl
          @ ''- **Fat**: '' @ format_f 0 (dict_get (totals dy) ''fat'' 0)
            @ ''g / '' @ format_f 0 (dict_get (goals dy) ''fat'' 0) @ ''g'' @ nl
          @ ''- **Protein**: '' @ format_f 0 (dict_get (totals dy) ''protein'' 0)
            @ ''g / '' @ format_f 0 (dict_get (goals dy) ''protein'' 0) @ ''g'' @ nl
          @ nl
          @ ''## Exercise'' @ nl
          @ ''- **Activities**: '' @ show_nat (length (all_exercise_entries dy)) @ nl
          @ ''- **Duration**: ''
            @ format_f 0 (sum_list (map minutes_or_zero (all_exercise_entries dy)))
            @ '' minutes'' @ nl
          @ ''- **Calories Burned**: ''
            @ format_f 0 (sum_list (map calories_burned (all_exercise_entries dy)))
            @ '' kcal'' @ nl
          @ nl
          @ ''## Water Intake'' @ nl
          @ ''- **Amount**: '' @ format_f 0 (water dy / 29.5735) @ '' oz (''
            @ format_f 1 (water dy / 236.588) @ '' cups, '' @ format_f 0 (water dy) @ '' ml)'' @ nl
          @ nl
          @ ''## Status'' @ nl
          @ ''- **Day Complete**: '' @ (if complete dy then ''Yes'' else ''No'') @ nl
          @ ''- **Meals Logged**: '' @ show_nat (length (meals dy)) @ nl)"
  by (simp add: daily_summary_text_def py_div_def exercise_totals_sums Let_def)

subsection \<open>Statements on the output\<close>

lemma run_statements_emit [simp]:
  "run_statements (emit x # stmts) output = run_statements stmts (output @ x)"
  by (simp add: emit_def)

lemma emit_result_Inr: "emit_result (Inr x) = emit x"
  by (rule ext) (simp add: emit_result_def emit_def)

lemma format_nutrient_eq:
  "format_nutrient tot gl name display_name unit_str =
     Inr (nutrient_line tot gl name display_name unit_str)"
  by (simp add: format_nutrient_def nutrient_line_def dict_get_def py_div_def Let_def
      split: option.split)

lemma when_do_micro:
  "when_do (key_in key tot) (emit (nutrient_line tot gl key display_name unit_str)) =
     emit (micro_line tot gl key display_name unit_str)"
  by (rule ext) (simp add: when_do_def key_in_def emit_def micro_line_def split: option.split)

lemma when_do_fat_detail:
  "when_do (key_in ''saturated fat'' tot)
     (emit (''  - Saturated: '' @ format_f 1 (dict_get tot ''saturated fat'' 0) @ ''g'' @ nl)) =
   emit (fat_detail_line ''Saturated'' ''saturated fat'' tot)"
  "when_do (key_in ''polyunsaturated fat'' tot)
     (emit (''  - Polyunsaturated: '' @ format_f 1 (dict_get tot ''polyunsaturated fat'' 0)
            @ ''g'' @ nl)) =
   emit (fat_detail_line ''Polyunsaturated'' ''polyunsaturated fat'' tot)"
  "when_do (key_in ''monounsaturated fat'' tot)
     (emit (''  - Monounsaturated: '' @ format_f 1 (dict_get tot ''monounsaturated fat'' 0)
            @ ''g'' @ nl)) =
   emit (fat_detail_line ''Monounsaturated'' ''monounsaturated fat'' tot)"
  "when_do (key_in ''trans fat'' tot)
     (emit (''  - Trans: '' @ format_f 1 (dict_get tot ''trans fat'' 0) @ ''g'' @ nl)) =
   emit (fat_detail_line ''Trans'' ''trans fat'' tot)"
  by (rule ext,
      simp add: when_do_def key_in_def emit_def fat_detail_line_def dict_get_def
        split: option.split)+

lemma daily_macros_text_eq:
  "daily_macros_text target dy =
     Inr (''# Macros & Nutrients for '' @ strftime_B_d_Y target @ nl @ nl
          @ ''## Macronutrients'' @ nl
          @ nutrient_line (totals dy) (goals dy) ''calories'' ''Calories'' ''kcal''
          @ nutrient_line (totals dy) (goals dy) ''carbohydrates'' ''Carbohydrates'' ''g''
          @ nutrient_line (totals dy) (goals dy) ''protein'' ''Protein'' ''g''
          @ nutrient_line (totals dy) (goals dy) ''fat'' ''Fat'' ''g''
          @ fat_detail_line ''Saturated'' ''saturated fat'' (totals dy)
          @ fat_detail_line ''Polyunsaturated'' ''polyunsaturated fat'' (totals dy)
          @ fat_detail_line ''Monounsaturated'' ''monounsaturated fat'' (totals dy)
          @ fat_detail_line ''Trans'' ''trans fat'' (totals dy)
          @ nutrient_line (totals dy) (goals dy) ''fiber'' ''Fiber'' ''g''
          @ nutrient_line (totals dy) (goals dy) ''sugar'' ''Sugar'' ''g''
          @ nl
          @ ''## Micronutrients'' @ nl
          @ micro_line (totals dy) (goals dy) ''sodium'' ''Sodium'' ''mg''
          @ micro_line (totals dy) (goals dy) ''potassium'' ''Potassium'' ''mg''
          @ micro_line (totals dy) (goals dy) ''cholesterol'' ''Cholesterol'' ''mg''
          @ micro_line (totals dy) (goals dy) ''vitamin a'' ''Vitamin A'' ''%''
          @ micro_line (totals dy) (goals dy) ''vitamin c'' ''Vitamin C'' ''%''
          @ micro_line (totals dy) (goals dy) ''calcium'' ''Calcium'' ''%''
          @ micro_line (totals dy) (goals dy) ''iron'' ''Iron'' ''%'')"
  unfolding daily_macros_text_def format_nutrient_eq emit_result_Inr when_do_micro
    when_do_fat_detail
  by (simp add: emit_def)


lemma run_statements_append:
  "run_statements (xs @ ys) out0 =
     (case run_statements xs out0 of Inl e \<Rightarrow> Inl e | Inr out' \<Rightarrow> run_statements ys out')"
  by (induction xs arbitrary: out0) (auto split: sum.splits)

lemma run_statements_map_emit:
  "run_statements (map (\<lambda>x. emit (f x)) xs) out0 = Inr (out0 @ concat (map f xs))"
  by (induction xs arbitrary: out0) (simp_all add: emit_def)

lemma breakdown_line_eq: "breakdown_line d = Inr (breakdown_entry d)"
  by (simp add: breakdown_line_def breakdown_entry_def py_div_def Let_def)

lemma water_intake_text_none:
  "\<not> 0 < water dy \<Longrightarrow>
     water_intake_text target dy =
       Inr (''# Water Intake for '' @ strftime_B_d_Y target @ nl @ nl
            @ ''No water intake logged for this day.'' @ nl
            @ nl @ ''*Recommended daily intake: 64 oz (8 cups / 2000 ml)*'' @ nl)"
  by (simp add: water_intake_text_def py_div_def emit_def when_do_def Let_def)

lemma water_intake_text_positive:
  "0 < water dy \<Longrightarrow>
     water_intake_text target dy =
       Inr (''# Water Intake for '' @ strftime_B_d_Y target @ nl @ nl
            @ ''**Amount**: '' @ format_f 0 (water dy / 29.5735) @ '' oz (''
            @ format_f 1 (water dy / 236.588) @ '' cups / '' @ format_f 0 (water dy)
            @ '' ml)'' @ nl
            @ nl @ ''*Recommended daily intake: 64 oz (8 cups / 2000 ml)*'' @ nl
            @ ''*Progress: '' @ format_f 0 (water dy / 29.5735 / 64 * 100)
            @ ''% of recommended amount*'' @ nl)"
  by (simp add: water_intake_text_def py_div_def emit_def emit_result_def when_do_def Let_def)

lemma date_range_summary_text_empty:
  "date_range_summary_text start end_d [] = Inr ''No data available for the specified date range.''"
  by (simp add: date_range_summary_text_def)

lemma date_range_summary_text_eq:
  assumes "daily_data \<noteq> []"
  shows "date_range_summary_text start end_d daily_data =
     Inr (''# Date Range Summary'' @ nl
          @ ''**'' @ strftime_B_d_Y start @ ''** to **'' @ strftime_B_d_Y end_d @ ''**'' @ nl
          @ ''('' @ show_nat (length daily_data) @ '' days)'' @ nl @ nl
          @ ''## Daily Averages'' @ nl
          @ ''- **Calories**: '' @ format_f 0 (mean (map d_calories daily_data)) @ '' kcal/day'' @ nl
          @ ''- **Carbohydrates**: '' @ format_f 0 (mean (map d_carbs daily_data)) @ ''g/day'' @ nl
          @ ''- **Fat**: '' @ format_f 0 (mean (map d_fat daily_data)) @ ''g/day'' @ nl
          @ ''- **Protein**: '' @ format_f 0 (mean (map d_protein daily_data)) @ ''g/day'' @ nl
          @ ''- **Water**: '' @ format_f 0 (mean (map d_water_ml daily_data) / 29.5735)
            @ '' oz/day ('' @ format_f 0 (mean (map d_water_ml daily_data)) @ '' ml/day)'' @ nl @ nl
          @ ''## Tracking Stats'' @ nl
          @ ''- **Days Completed**: '' @ show_nat (length (filter d_complete daily_data)) @ ''/''
            @ show_nat (length daily_data) @ '' (''
            @ format_f 0 (percent_of (length (filter d_complete daily_data)) (length daily_data))
            @ ''%)'' @ nl
          @ ''- **Days with Exercise**: ''
            @ show_nat (length (filter (\<lambda>d. 0 < d_num_exercises d) daily_data)) @ ''/''
            @ show_nat (length daily_data) @ '' (''
            @ format_f 0 (percent_of (length (filter (\<lambda>d. 0 < d_num_exercises d) daily_data))
                           (length daily_data))
            @ ''%)'' @ nl @ nl
          @ ''## Daily Breakdown'' @ nl
          @ concat (map breakdown_entry daily_data))"
proof -
  have n: "(of_nat (length daily_data) :: num) \<noteq> 0" using assms by simp
  show ?thesis
    unfolding date_range_summary_text_def breakdown_line_eq emit_result_Inr
    using assms n
    by (simp add: py_div_def Let_def run_statements_append run_statements_map_emit emit_def
        emit_result_def mean_def percent_of_def)
qed

subsection \<open>The last calendar date\<close>

lemma date_max_valid: "valid_date date_max"
  by (simp add: valid_date_def date_max_def days_in_month_def)

lemma parse_date_max: "parse_date t (Some ''9999-12-31'') = Inr date_max"
proof -
  have "date_forms date_max = [''9999-12-31'']"
    by (simp add: date_forms_def date_max_def month_forms_table day_forms_table zfill_def
        show_nat.simps digit_char_simps)
  then have "strptime_Y_m_d ''9999-12-31'' = Inr date_max"
    by (intro strptime_complete date_max_valid) simp
  then show ?thesis by (simp add: parse_date_def)
qed

lemma add_one_day_max: "add_one_day date_max = Inl (OverflowError ''date value out of range'')"
  by (simp add: add_one_day_def date_max_def days_in_month_def)

lemma get_date_range_at_max:
  "get_date_range c date_max date_max s =
     (((case lib_get_date c date_max of Inl _ \<Rightarrow> [] | Inr dy \<Rightarrow> [dy]),
       Some (OverflowError ''date value out of range'')),
      s\<lparr>requests := requests s @ [date_max]\<rparr>)"
  by (rule get_date_range_last) (simp_all add: add_one_day_max)

lemma date_range_summary_body_ok:
  assumes "parse_date (today w) (Some start_date) = Inr start"
    and "parse_date (today w) (Some end_date) = Inr end_d"
    and "valid_date start" and "valid_date end_d"
    and "date_le start end_d" and "end_d \<noteq> date_max"
    and "client_global s = Some c"
  shows "date_range_summary_body w start_date end_date s =
           (bindE (date_range_summary_text start end_d
                     (map collect_day (fst (fst (get_date_range c start end_d s)))))
              (\<lambda>output. Inr (text_response output)),
            snd (get_date_range c start end_d s))"
proof -
  from get_date_range_ending [OF assms(3,4,5), of c s] assms(6)
  have e: "snd (fst (get_date_range c start end_d s)) = None"
    by (simp add: date_max_def)
  obtain days ending s2 where g: "get_date_range c start end_d s = ((days, ending), s2)"
    by (metis surj_pair)
  with e have "ending = None" by simp
  with g assms show ?thesis
    by (simp add: date_range_summary_body_def get_client_cached date_le_def)
qed

subsection \<open>The failure boundary\<close>





lemma parse_jan_1: "parse_date t (Some ''2024-01-01'') = Inr jan_1"
proof -
  have "valid_date jan_1" by (simp add: valid_date_def jan_1_def days_in_month_def)
  moreover have "''2024-01-01'' \<in> set (date_forms jan_1)"
    by (simp add: date_forms_def jan_1_def month_forms_table day_forms_table zfill_def
        show_nat.simps digit_char_simps)
  ultimately have "strptime_Y_m_d ''2024-01-01'' = Inr jan_1" by (rule strptime_complete)
  then show ?thesis by (simp add: parse_date_def)
qed

lemma parse_jan_3: "parse_date t (Some ''2024-01-03'') = Inr jan_3"
proof -
  have "valid_date jan_3" by (simp add: valid_date_def jan_3_def days_in_month_def)
  moreover have "''2024-01-03'' \<in> set (date_forms jan_3)"
    by (simp add: date_forms_def jan_3_def month_forms_table day_forms_table zfill_def
        show_nat.simps digit_char_simps)
  ultimately have "strptime_Y_m_d ''2024-01-03'' = Inr jan_3" by (rule strptime_complete)
  then show ?thesis by (simp add: parse_date_def)
qed


lemma get_date_range_frame:
  "snd (get_date_range c current end_date s) =
     s\<lparr>requests := requests (snd (get_date_range c current end_date s))\<rparr>"
proof (induction c current end_date s rule: get_date_range.induct)
  case (1 c current end_date s)
  show ?case
  proof (cases "date_le current end_date")
    case False
    then show ?thesis by (simp add: get_date_range_stop)
  next
    case True
    show ?thesis
    proof (cases "add_one_day current")
      case (Inl e)
      show ?thesis by (simp add: get_date_range_last [OF True Inl])
    next
      case (Inr nxt)
      have gd: "(lib_get_date c current, s\<lparr>requests := requests s @ [current]\<rparr>) =
                  get_day c current s"
        by (simp add: get_day_def)
      obtain rest ending s2 where
        g: "get_date_range c nxt end_date (s\<lparr>requests := requests s @ [current]\<rparr>) =
              ((rest, ending), s2)"
        by (metis surj_pair)
      from "1.IH" [OF True gd Inr] g
      have "s2 = s\<lparr>requests := requests s @ [current]\<rparr>\<lparr>requests := requests s2\<rparr>" by simp
      then have "s2 = s\<lparr>requests := requests s2\<rparr>" by simp
      with g show ?thesis by (simp add: get_date_range_step [OF True Inr])
    qed
  qed
qed

lemma get_date_range_whole:
  assumes "valid_date start" and "valid_date end_date"
  shows "\<exists>ds. set ds = {d. valid_date d \<and> date_le start d \<and> date_le d end_date} \<and>
              sorted_wrt date_lt ds \<and>
              get_date_range c start end_date s =
                ((concat (map (\<lambda>d. case lib_get_date c d of Inl _ \<Rightarrow> [] | Inr dy \<Rightarrow> [dy]) ds),
                  if date_le start end_date \<and> end_date = date_max
                  then Some (OverflowError ''date value out of range'') else None),
                 s\<lparr>requests := requests s @ ds\<rparr>)"
proof -
  from get_date_range_run [OF assms(1), of end_date c s] obtain ds where
    ds: "set ds = {d. valid_date d \<and> date_le start d \<and> date_le d end_date}"
      "sorted_wrt date_lt ds"
      "fst (fst (get_date_range c start end_date s)) =
         concat (map (\<lambda>d. case lib_get_date c d of Inl _ \<Rightarrow> [] | Inr dy \<Rightarrow> [dy]) ds)"
      "requests (snd (get_date_range c start end_date s)) = requests s @ ds"
    by blast
  have e: "snd (fst (get_date_range c start end_date s)) =
      (if date_le start end_date \<and> end_date = date_max
       then Some (OverflowError ''date value out of range'') else None)"
  proof (cases "date_le start end_date")
    case True
    with get_date_range_ending [OF assms True, of c s] show ?thesis
      by (simp add: date_max_def)
  next
    case False
    then show ?thesis by (simp add: get_date_range_stop)
  qed
  obtain ys en s2 where g: "get_date_range c start end_date s = ((ys, en), s2)"
    by (metis surj_pair)
  from get_date_range_frame [of c start end_date s] ds(4) g
  have "s2 = s\<lparr>requests := requests s @ ds\<rparr>" by simp
  with g ds(3) e have "get_date_range c start end_date s =
      ((concat (map (\<lambda>d. case lib_get_date c d of Inl _ \<Rightarrow> [] | Inr dy \<Rightarrow> [dy]) ds),
        if date_le start end_date \<and> end_date = date_max
        then Some (OverflowError ''date value out of range'') else None),
       s\<lparr>requests := requests s @ ds\<rparr>)"
    by simp
  with ds(1,2) show ?thesis by blast
qed

section \<open>The failure boundary of the tools\<close>



section \<open>The ranged fetch\<close>

lemma flaky_run:
  "get_date_range flaky_client jan_1 jan_3 fresh_server =
     (([blank_day jan_1, blank_day jan_3], None),
      \<lparr>client_global = None, stdout = [], requests = [jan_1, jan_2, jan_3]\<rparr>)"
  by (simp add: get_date_range.simps get_day_def add_one_day_def date_le_def date_lt_def
      days_in_month_def is_leap_def flaky_client_def jan_1_def jan_2_def jan_3_def
      fresh_server_def numeral_2_eq_2 numeral_3_eq_3)

text \<open>
  C2: between two calendar dates, the generator asks the remote service for every
  calendar date from start to end inclusive, once each and in strictly ascending order, and
  yields the days whose fetch succeeded, in that order. A date whose fetch raises is left
  out and the later dates are still fetched; it is asked for once, nothing is printed, and
  its exception is not the way the generator ends. The run changes nothing of the server
  but the list of the dates asked for. The generator ends exhausted, but for one end date:
  \<^verbatim>\<open>date.max\<close>, 9999-12-31, where the step past the last date raises
  \<^verbatim>\<open>OverflowError\<close> after every day has been yielded; what was yielded is as for any
  other end date. With 2024-01-02 raising between 2024-01-01 and 2024-01-03, exactly the
  days of 01-01 and 01-03 are yielded.
\<close>

theorem get_date_range_yields:
  assumes "valid_date start" and "valid_date end_date"
  shows "\<exists>ds. set ds = {d. valid_date d \<and> date_le start d \<and> date_le d end_date} \<and>
              sorted_wrt date_lt ds \<and>
              get_date_range c start end_date s =
                ((concat (map (\<lambda>d. case lib_get_date c d of Inl _ \<Rightarrow> [] | Inr dy \<Rightarrow> [dy]) ds),
                  if date_le start end_date \<and> end_date = date_max
                  then Some (OverflowError ''date value out of range'') else None),
                 s\<lparr>requests := requests s @ ds\<rparr>)"
  using assms by (rule get_date_range_whole)

theorem get_date_range_yields_witness:
  "valid_date jan_1 \<and> valid_date jan_3 \<and>
   (\<exists>ds. set ds = {d. valid_date d \<and> date_le jan_1 d \<and> date_le d jan_3} \<and>
         sorted_wrt date_lt ds \<and>
         get_date_range flaky_client jan_1 jan_3 fresh_server =
           ((concat (map (\<lambda>d. case lib_get_date flaky_client d of Inl _ \<Rightarrow> [] | Inr dy \<Rightarrow> [dy]) ds),
             if date_le jan_1 jan_3 \<and> jan_3 = date_max
             then Some (OverflowError ''date value out of range'') else None),
            fresh_server\<lparr>requests := requests fresh_server @ ds\<rparr>)) \<and>
   get_date_range flaky_client jan_1 jan_3 fresh_server =
     (([blank_day jan_1, blank_day jan_3], None),
      \<lparr>client_global = None, stdout = [], requests = [jan_1, jan_2, jan_3]\<rparr>)"
proof -
  have v: "valid_date jan_1" by (simp add: valid_date_def jan_1_def days_in_month_def)
  have v3: "valid_date jan_3" by (simp add: valid_date_def jan_3_def days_in_month_def)
  note r = get_date_range_yields [OF v v3, of flaky_client fresh_server]
  show ?thesis by (rule conjI [OF v conjI [OF v3 conjI [OF r flaky_run]]])
qed

section \<open>The date parser\<close>

lemma march_15_valid: "valid_date march_15"
  by (simp add: valid_date_def march_15_def days_in_month_def)

lemma march_15_forms:
  "date_forms march_15 =
     [''2024-03-15'', ''2024-3-15'']"
  by (simp add: date_forms_def march_15_def month_forms_table day_forms_table zfill_def
      show_nat.simps digit_char_simps)

text \<open>
  C3, as the spec states it: a non-empty string parses exactly when it has the shape
  YYYY-MM-DD with a two-digit month and day. The string 2024-3-15 has not that shape and
  parses, to 15 March 2024.
\<close>

theorem parse_date_one_digit_month:
  "\<not> strict_shape ''2024-3-15'' \<and>
   parse_date march_15 (Some ''2024-3-15'') = Inr \<lparr>year = 2024, month = 3, day = 15\<rparr>"
proof -
  have "strptime_Y_m_d ''2024-3-15'' = Inr march_15"
    by (rule strptime_complete [OF march_15_valid]) (simp add: march_15_forms)
  then show ?thesis
    by (simp add: parse_date_def strict_shape_def march_15_def)
qed

text \<open>
  C3, amended: absent or empty input gives the current date. A non-empty string of ASCII
  characters parses to a date exactly when that date is on the calendar (year 1 to 9999)
  and the string is one of its accepted writings: four-digit year, dash, month in two
  digits or in one digit when below 10, dash, day in two digits or, when below 10, in one
  digit or a space and one digit. Every other ASCII string fails with the invalid-format
  error that carries the string. Nothing is said of a string with a character that is not
  ASCII.
\<close>

theorem parse_date_accepts:
  "parse_date t None = Inr t \<and> parse_date t (Some []) = Inr t \<and>
   (s \<noteq> [] \<and> isascii s \<longrightarrow>
      (\<forall>dt. parse_date t (Some s) = Inr dt \<longleftrightarrow> valid_date dt \<and> s \<in> set (date_forms dt)) \<and>
      ((\<exists>dt. parse_date t (Some s) = Inr dt) \<or>
       parse_date t (Some s) = Inl (ValueError (''Invalid date format: '' @ s @ ''. Use YYYY-MM-DD''))))"
proof (intro conjI impI allI)
  show "parse_date t None = Inr t" by (simp add: parse_date_def)
  show "parse_date t (Some []) = Inr t" by (simp add: parse_date_def)
next
  fix dt
  assume "s \<noteq> [] \<and> isascii s"
  then have ne: "s \<noteq> []" ..
  show "parse_date t (Some s) = Inr dt \<longleftrightarrow> valid_date dt \<and> s \<in> set (date_forms dt)"
  proof
    assume "parse_date t (Some s) = Inr dt"
    with ne have "strptime_Y_m_d s = Inr dt"
      by (auto simp add: parse_date_def split: sum.splits exn.splits)
    then show "valid_date dt \<and> s \<in> set (date_forms dt)" by (rule strptime_sound)
  next
    assume "valid_date dt \<and> s \<in> set (date_forms dt)"
    then have "strptime_Y_m_d s = Inr dt" by (simp add: strptime_complete)
    with ne show "parse_date t (Some s) = Inr dt" by (simp add: parse_date_def)
  qed
next
  assume "s \<noteq> [] \<and> isascii s"
  then have ne: "s \<noteq> []" ..
  show "(\<exists>dt. parse_date t (Some s) = Inr dt) \<or>
       parse_date t (Some s) = Inl (ValueError (''Invalid date format: '' @ s @ ''. Use YYYY-MM-DD''))"
  proof (cases "strptime_Y_m_d s")
    case (Inl e)
    with strptime_error [OF Inl] ne show ?thesis by (auto simp add: parse_date_def)
  next
    case (Inr d)
    with ne show ?thesis by (simp add: parse_date_def)
  qed
qed

theorem parse_date_accepts_witness:
  "''2024-03-15'' \<noteq> [] \<and> isascii ''2024-03-15'' \<and> isascii ''03/15/2024'' \<and>
   parse_date march_15 None = Inr march_15 \<and>
   parse_date march_15 (Some ''2024-03-15'') = Inr march_15 \<and>
   parse_date march_15 (Some ''03/15/2024'') =
     Inl (ValueError ''Invalid date format: 03/15/2024. Use YYYY-MM-DD'')"
proof -
  have ne: "''2024-03-15'' \<noteq> [] \<and> isascii ''2024-03-15''" by (simp add: isascii_def)
  have a2: "isascii ''03/15/2024''" by (simp add: isascii_def)
  have "valid_date march_15 \<and> ''2024-03-15'' \<in> set (date_forms march_15)"
    by (simp add: march_15_valid march_15_forms)
  with parse_date_accepts [of march_15 "''2024-03-15''"] ne
  have "parse_date march_15 None = Inr march_15"
    and "parse_date march_15 (Some ''2024-03-15'') = Inr march_15"
    by blast+
  moreover have "parse_date march_15 (Some ''03/15/2024'') =
     Inl (ValueError ''Invalid date format: 03/15/2024. Use YYYY-MM-DD'')"
    by (simp add: parse_date_def strptime_Y_m_d_def regex_matches_def is_digit_def)
  ultimately show ?thesis using ne a2 by simp
qed

section \<open>Date range summary\<close>

text \<open>
  What C4 describes holds on every range that does not end on the last calendar date:
  the summary is the text of the days the ranged fetch yielded, with means over those
  days and their number as the denominator of both percentages, and the message for no
  data when none was yielded. A day is counted as a day with exercise when its list of
  exercise categories is not empty. The numbers are printed from the exact means: where a
  float mean of the code is within a float's error of a rounding tie it can print the
  neighbouring digit.
\<close>

lemma date_range_summary_reports:
  assumes "parse_date (today w) (Some start_date) = Inr start"
    and "parse_date (today w) (Some end_date) = Inr end_d"
    and "valid_date start" and "valid_date end_d"
    and "date_le start end_d" and "end_d \<noteq> date_max"
    and "client_global s = Some c"
    and "daily_data = map collect_day (fst (fst (get_date_range c start end_d s)))"
  shows "daily_data = [] \<Longrightarrow>
           fst (get_date_range_summary w start_date end_date s) =
             Inr (text_response ''No data available for the specified date range.'')"
    and "daily_data \<noteq> [] \<Longrightarrow>
           fst (get_date_range_summary w start_date end_date s) =
             Inr (text_response
               (''# Date Range Summary'' @ nl
                @ ''**'' @ strftime_B_d_Y start @ ''** to **'' @ strftime_B_d_Y end_d @ ''**'' @ nl
                @ ''('' @ show_nat (length daily_data) @ '' days)'' @ nl @ nl
                @ ''## Daily Averages'' @ nl
                @ ''- **Calories**: '' @ format_f 0 (mean (map d_calories daily_data))
                  @ '' kcal/day'' @ nl
                @ ''- **Carbohydrates**: '' @ format_f 0 (mean (map d_carbs daily_data))
                  @ ''g/day'' @ nl
                @ ''- **Fat**: '' @ format_f 0 (mean (map d_fat daily_data)) @ ''g/day'' @ nl
                @ ''- **Protein**: '' @ format_f 0 (mean (map d_protein daily_data))
                  @ ''g/day'' @ nl
                @ ''- **Water**: '' @ format_f 0 (mean (map d_water_ml daily_data) / 29.5735)
                  @ '' oz/day ('' @ format_f 0 (mean (map d_water_ml daily_data))
                  @ '' ml/day)'' @ nl @ nl
                @ ''## Tracking Stats'' @ nl
                @ ''- **Days Completed**: '' @ show_nat (length (filter d_complete daily_data))
                  @ ''/'' @ show_nat (length daily_data) @ '' (''
                  @ format_f 0 (percent_of (length (filter d_complete daily_data))
                                  (length daily_data))
                  @ ''%)'' @ nl
                @ ''- **Days with Exercise**: ''
                  @ show_nat (length (filter (\<lambda>d. 0 < d_num_exercises d) daily_data)) @ ''/''
                  @ show_nat (length daily_data) @ '' (''
                  @ format_f 0 (percent_of
                      (length (filter (\<lambda>d. 0 < d_num_exercises d) daily_data))
                      (length daily_data))
                  @ ''%)'' @ nl @ nl
                @ ''## Daily Breakdown'' @ nl
                @ concat (map breakdown_entry daily_data)))"
  using date_range_summary_body_ok [OF assms(1-7)] assms(8)
  by (simp_all add: get_date_range_summary_def except_Exception_def
      date_range_summary_text_empty date_range_summary_text_eq)

text \<open>
  The example of the claim: calories of 2000, 2200 and 1800 are reported as 2000 a day;
  and one completed day of two yielded is reported as 50 percent.
\<close>

lemma calories_example:
  assumes "map d_calories daily_data = [2000, 2200, 1800]"
  shows "''- **Calories**: '' @ format_f 0 (mean (map d_calories daily_data)) @ '' kcal/day'' =
         ''- **Calories**: 2000 kcal/day''"
proof -
  have "mean [2000, 2200, 1800] = 2000" by (simp add: mean_def)
  moreover have "format_f 0 2000 = ''2000''"
    by (rule format_f_0_eval [where n = 2000]) (simp_all add: show_nat.simps digit_char_simps)
  ultimately show ?thesis using assms by simp
qed

lemma percent_example: "format_f 0 (percent_of 1 2) = ''50''"
proof -
  have "percent_of 1 2 = 50" by (simp add: percent_of_def)
  moreover have "format_f 0 50 = ''50''"
    by (rule format_f_0_eval [where n = 50]) (simp_all add: show_nat.simps digit_char_simps)
  ultimately show ?thesis by simp
qed

text \<open>
  C4 at the range 9999-12-31 to 9999-12-31. The ranged fetch asks for that day and yields
  it when the fetch succeeds; the step to the next date then raises, and the tool returns
  the error text: neither the summary of the yielded day nor, when nothing was yielded, the
  message for no data.
\<close>

theorem range_summary_fails_at_date_max:
  "fst (get_date_range c date_max date_max
          \<lparr>client_global = Some c, stdout = printed, requests = asked\<rparr>) =
     ((case lib_get_date c date_max of Inl _ \<Rightarrow> [] | Inr dy \<Rightarrow> [dy]),
      Some (OverflowError ''date value out of range''))
   \<and> get_date_range_summary w ''9999-12-31'' ''9999-12-31''
         \<lparr>client_global = Some c, stdout = printed, requests = asked\<rparr> =
       (Inr (text_response ''Error retrieving date range summary: date value out of range''),
        \<lparr>client_global = Some c, stdout = printed, requests = asked @ [date_max]\<rparr>)"
  by (simp add: get_date_range_at_max get_date_range_summary_def date_range_summary_body_def
      parse_date_max get_client_cached except_Exception_def)

section \<open>Building the client\<close>

lemma MyFitnessPalClient_init_fails:
  assumes "\<forall>jar. myfitnesspal_Client w jar = Inl e"
  shows "fst (MyFitnessPalClient_init w) = Inl e"
proof -
  obtain r printed where l: "load_cookies_from_env w = (r, printed)" by (cases "load_cookies_from_env w")
  then obtain jar where "r = Inr jar"
    by (auto simp: load_cookies_from_env_def split: option.splits if_splits sum.splits)
  with l assms show ?thesis
    by (simp add: MyFitnessPalClient_init_def split: option.splits list.splits)
qed

lemma get_client_fails:
  assumes "\<forall>jar. myfitnesspal_Client w jar = Inl e" and "client_global s = None"
  shows "get_client w s = (Inl e, s\<lparr>stdout := stdout s @ snd (MyFitnessPalClient_init w)\<rparr>)"
  using MyFitnessPalClient_init_fails [OF assms(1)] assms(2)
  by (cases "MyFitnessPalClient_init w") (simp add: get_client_def)

text \<open>
  C5, as the spec states it: a failure to build the client would stop the server at startup
  and would not be a tool's text response. In a process where the library finds no
  credentials, the server that has started holds no client and has failed nothing; the
  first call of a tool fails to build the client and answers with its error text, and the
  server is as before the call.
\<close>

theorem no_credentials_give_a_tool_response:
  "client_global fresh_server = None
   \<and> fst (MyFitnessPalClient_init locked_out_world) = Inl (LibraryError ''not logged in'')
   \<and> get_daily_summary locked_out_world None fresh_server =
       (Inr (text_response ''Error retrieving daily summary: not logged in''), fresh_server)"
  by (simp add: fresh_server_def locked_out_world_def MyFitnessPalClient_init_def
      load_cookies_from_env_def get_daily_summary_def fetch_target_day_def parse_date_def
      get_client_def except_Exception_def)

text \<open>
  C5, amended: when the library's constructor raises with a cookie jar and without one,
  building the client fails with that exception. The client is built by the first tool
  call that finds none, inside that tool's failure boundary: once its date arguments have
  parsed (and, for the range summary, are in order), each of the six tools answers with
  the text \<^verbatim>\<open>Error retrieving <subject>: <message>\<close> of that exception. The server goes
  on with no client and no day asked for, so the next call builds again; only the lines
  printed by the cookie loader are added to its output.
\<close>

theorem client_failure_is_a_tool_response:
  "\<forall>jar. myfitnesspal_Client w jar = Inl e \<Longrightarrow> client_global s = None \<Longrightarrow>
   parse_date (today w) date_arg = Inr d \<Longrightarrow>
   parse_date (today w) (Some start_date) = Inr start \<Longrightarrow>
   parse_date (today w) (Some end_date) = Inr end_d \<Longrightarrow> \<not> date_lt end_d start \<Longrightarrow>
     fst (MyFitnessPalClient_init w) = Inl e
   \<and> (\<forall>(subject, tool, formatter) \<in> set single_day_tools.
         tool w date_arg s =
           (Inr (error_response subject e),
            s\<lparr>stdout := stdout s @ snd (MyFitnessPalClient_init w)\<rparr>))
   \<and> get_date_range_summary w start_date end_date s =
       (Inr (error_response ''date range summary'' e),
        s\<lparr>stdout := stdout s @ snd (MyFitnessPalClient_init w)\<rparr>)"
proof (intro conjI)
  assume lib: "\<forall>jar. myfitnesspal_Client w jar = Inl e" and none: "client_global s = None"
    and p: "parse_date (today w) date_arg = Inr d"
    and p1: "parse_date (today w) (Some start_date) = Inr start"
    and p2: "parse_date (today w) (Some end_date) = Inr end_d"
    and le: "\<not> date_lt end_d start"
  note g = get_client_fails [OF lib none]
  show "fst (MyFitnessPalClient_init w) = Inl e"
    by (rule MyFitnessPalClient_init_fails [OF lib])
  show "\<forall>(subject, tool, formatter) \<in> set single_day_tools.
         tool w date_arg s =
           (Inr (error_response subject e),
            s\<lparr>stdout := stdout s @ snd (MyFitnessPalClient_init w)\<rparr>)"
    unfolding single_day_tools_def list.set ball_simps prod.case
    by (simp add: get_daily_summary_def get_daily_meals_def get_daily_exercise_def
        get_daily_macros_def get_water_intake_def fetch_target_day_def p g
        except_Exception_def error_response_def)
  show "get_date_range_summary w start_date end_date s =
       (Inr (error_response ''date range summary'' e),
        s\<lparr>stdout := stdout s @ snd (MyFitnessPalClient_init w)\<rparr>)"
    by (simp add: get_date_range_summary_def date_range_summary_body_def p1 p2 le g
        except_Exception_def error_response_def)
qed

theorem client_failure_is_a_tool_response_witness:
  "(\<forall>jar. myfitnesspal_Client locked_out_world jar = Inl (LibraryError ''not logged in''))
   \<and> client_global fresh_server = None
   \<and> parse_date (today locked_out_world) None = Inr march_15
   \<and> \<not> date_lt jan_3 jan_1
   \<and> get_daily_meals locked_out_world None fresh_server =
       (Inr (text_response ''Error retrieving meals: not logged in''), fresh_server)
   \<and> get_date_range_summary locked_out_world ''2024-01-01'' ''2024-01-03'' fresh_server =
       (Inr (text_response ''Error retrieving date range summary: not logged in''),
        fresh_server)"
proof -
  have lib: "\<forall>jar. myfitnesspal_Client locked_out_world jar = Inl (LibraryError ''not logged in'')"
    by (simp add: locked_out_world_def)
  have none: "client_global fresh_server = None" by (simp add: fresh_server_def)
  have p: "parse_date (today locked_out_world) None = Inr march_15"
    by (simp add: parse_date_def locked_out_world_def)
  have le: "\<not> date_lt jan_3 jan_1" by (simp add: date_lt_def jan_1_def jan_3_def)
  have printed: "snd (MyFitnessPalClient_init locked_out_world) = []"
    by (simp add: MyFitnessPalClient_init_def load_cookies_from_env_def locked_out_world_def)
  have m: "(''meals'', get_daily_meals, daily_meals_text) \<in> set single_day_tools"
    by (simp add: single_day_tools_def)
  note t = client_failure_is_a_tool_response [OF lib none p parse_jan_1 parse_jan_3 le]
  note a = t [THEN conjunct2, THEN conjunct1]
  from bspec [OF a m] printed
  have 1: "get_daily_meals locked_out_world None fresh_server =
       (Inr (text_response ''Error retrieving meals: not logged in''), fresh_server)"
    by (simp add: error_response_def fresh_server_def)
  from t printed
  have 2: "get_date_range_summary locked_out_world ''2024-01-01'' ''2024-01-03'' fresh_server =
       (Inr (text_response ''Error retrieving date range summary: not logged in''),
        fresh_server)"
    by (simp add: error_response_def fresh_server_def)
  from lib none p le 1 2 show ?thesis by blast
qed

section \<open>Macros and micronutrients\<close>

lemma format_1800: "format_f 0 1800 = ''1800''"
  by (rule format_f_0_eval [where n = 1800]) (simp_all add: show_nat.simps digit_char_simps)

lemma format_2000: "format_f 0 2000 = ''2000''"
  by (rule format_f_0_eval [where n = 2000]) (simp_all add: show_nat.simps digit_char_simps)

lemma format_90: "format_f 0 90 = ''90''"
  by (rule format_f_0_eval [where n = 90]) (simp_all add: show_nat.simps digit_char_simps)

lemma format_60: "format_f 0 60 = ''60''"
  by (rule format_f_0_eval [where n = 60]) (simp_all add: show_nat.simps digit_char_simps)

lemma format_0: "format_f 0 0 = ''0''"
  by (rule format_f_0_eval [where n = 0]) (simp_all add: show_nat.simps digit_char_simps)

lemma format_0_1: "format_f 1 0 = ''0.0''"
  by (rule format_f_1_eval [where n = 0]) (simp_all add: show_nat.simps digit_char_simps)

lemmas macro_day_formats = format_1800 format_2000 format_90 format_60 format_0 format_0_1
  format_0_1 [unfolded One_nat_def]

text \<open>
  C6: in the macro breakdown each of calories, carbohydrates, protein, fat, fiber and sugar
  is printed as value, goal and percent of goal exactly when its goal is present and above
  zero, else as the bare value, an absent total counting as zero; each fat detail line and
  each micronutrient line is printed exactly when its key is in the totals, and nothing is
  printed for an absent key. A key that is present with the value zero has its line. The
  numbers are printed from the exact values: where the code's float quotient is within a
  float's error of a rounding tie it can print the neighbouring digit.
\<close>

theorem daily_macros_lines:
  "daily_macros_text target dy =
     Inr (''# Macros & Nutrients for '' @ strftime_B_d_Y target @ nl @ nl
          @ ''## Macronutrients'' @ nl
          @ nutrient_line (totals dy) (goals dy) ''calories'' ''Calories'' ''kcal''
          @ nutrient_line (totals dy) (goals dy) ''carbohydrates'' ''Carbohydrates'' ''g''
          @ nutrient_line (totals dy) (goals dy) ''protein'' ''Protein'' ''g''
          @ nutrient_line (totals dy) (goals dy) ''fat'' ''Fat'' ''g''
          @ fat_detail_line ''Saturated'' ''saturated fat'' (totals dy)
          @ fat_detail_line ''Polyunsaturated'' ''polyunsaturated fat'' (totals dy)
          @ fat_detail_line ''Monounsaturated'' ''monounsaturated fat'' (totals dy)
          @ fat_detail_line ''Trans'' ''trans fat'' (totals dy)
          @ nutrient_line (totals dy) (goals dy) ''fiber'' ''Fiber'' ''g''
          @ nutrient_line (totals dy) (goals dy) ''sugar'' ''Sugar'' ''g''
          @ nl
          @ ''## Micronutrients'' @ nl
          @ micro_line (totals dy) (goals dy) ''sodium'' ''Sodium'' ''mg''
          @ micro_line (totals dy) (goals dy) ''potassium'' ''Potassium'' ''mg''
          @ micro_line (totals dy) (goals dy) ''cholesterol'' ''Cholesterol'' ''mg''
          @ micro_line (totals dy) (goals dy) ''vitamin a'' ''Vitamin A'' ''%''
          @ micro_line (totals dy) (goals dy) ''vitamin c'' ''Vitamin C'' ''%''
          @ micro_line (totals dy) (goals dy) ''calcium'' ''Calcium'' ''%''
          @ micro_line (totals dy) (goals dy) ''iron'' ''Iron'' ''%'')"
  by (rule daily_macros_text_eq)

theorem daily_macros_lines_witness:
  "daily_macros_text march_15 macro_day =
     Inr (''# Macros & Nutrients for March 15, 2024'' @ nl @ nl
          @ ''## Macronutrients'' @ nl
          @ ''- **Calories**: 1800kcal / 2000kcal (90%)'' @ nl
          @ ''- **Carbohydrates**: 0g'' @ nl
          @ ''- **Protein**: 0g'' @ nl
          @ ''- **Fat**: 60g'' @ nl
          @ ''  - Saturated: 0.0g'' @ nl
          @ ''- **Fiber**: 0g'' @ nl
          @ ''- **Sugar**: 0g'' @ nl
          @ nl
          @ ''## Micronutrients'' @ nl
          @ ''- **Sodium**: 0mg'' @ nl)"
  by (simp add: daily_macros_lines nutrient_line_def fat_detail_line_def micro_line_def
      macro_day_def macro_day_formats strftime_march_15 Let_def)

section \<open>Daily summary\<close>

lemma format_200: "format_f 0 (2000 - 1800) = ''200''"
  by (rule format_f_0_eval [where n = 200]) (simp_all add: show_nat.simps digit_char_simps)

lemma format_1500_oz: "format_f 0 (1500 / 29.5735) = ''51''"
  by (rule format_f_0_eval [where n = 51]) (simp_all add: show_nat.simps digit_char_simps)

lemma format_1500_cups: "format_f 1 (1500 / 236.588) = ''6.3''"
  by (rule format_f_1_eval [where n = 63]) (simp_all add: show_nat.simps digit_char_simps)

lemma format_1500_ml: "format_f 0 1500 = ''1500''"
  by (rule format_f_0_eval [where n = 1500]) (simp_all add: show_nat.simps digit_char_simps)

lemma show_nat_2: "show_nat 2 = ''2''"
  by (simp add: show_nat.simps digit_char_simps)

lemma summary_example:
  assumes "totals dy ''calories'' = Some 1800" and "goals dy ''calories'' = Some 2000"
    and "water dy = 1500" and "length (meals dy) = 2"
  shows "\<exists>out. daily_summary_text target dy = Inr out \<and>
           contains out ''Remaining**: 200 kcal'' \<and>
           contains out ''51 oz (6.3 cups, 1500 ml)'' \<and>
           contains out ''Meals Logged**: 2''"
proof -
  have c: "dict_get (totals dy) ''calories'' 0 = 1800" "dict_get (goals dy) ''calories'' 0 = 2000"
    using assms by (simp_all add: dict_get_def)
  show ?thesis
    unfolding daily_summary_text_eq c assms format_200 format_1500_oz format_1500_cups
      format_1500_ml show_nat_2
    by (simp add: contains_append_right nl_def)
qed


text \<open>
  C7: the daily summary prints remaining calories as goal minus consumed, the exercise
  duration as the sum of the entries' minutes (absent counted as zero) and the calories
  burned as the sum of that field. For a day with 1800 of 2000 kcal, 1500 ml of water and
  two meals, the tool called without a date prints "Remaining**: 200 kcal",
  "51 oz (6.3 cups, 1500 ml)" and "Meals Logged**: 2". The numbers are printed from the
  exact values: where a float sum or quotient of the code is within a float's error of a
  rounding tie it can print the neighbouring digit; 1500 ml is far from one.
\<close>

theorem daily_summary_reports:
  "daily_summary_text target dy =
     Inr (''# Daily Summary for '' @ strftime_B_d_Y target @ nl
          @ nl
          @ ''## Calories'' @ nl
          @ ''- **Consumed**: '' @ format_f 0 (dict_get (totals dy) ''calories'' 0) @ '' kcal'' @ nl
          @ ''- **Goal**: '' @ format_f 0 (dict_get (goals dy) ''calories'' 0) @ '' kcal'' @ nl
          @ ''- **Remaining**: ''
            @ format_f 0 (dict_get (goals dy) ''calories'' 0 - dict_get (totals dy) ''calories'' 0)
            @ '' kcal'' @ nl
          @ nl
          @ ''## Macronutrients'' @ nl
          @ ''- **Carbohydrates**: '' @ format_f 0 (dict_get (totals dy) ''carbohydrates'' 0)
            @ ''g / '' @ format_f 0 (dict_get (goals dy) ''carbohydrates'' 0) @ ''g'' @ nl
          @ ''- **Fat**: '' @ format_f 0 (dict_get (totals dy) ''fat'' 0)
            @ ''g / '' @ format_f 0 (dict_get (goals dy) ''fat'' 0) @ ''g'' @ nl
          @ ''- **Protein**: '' @ format_f 0 (dict_get (totals dy) ''protein'' 0)
            @ ''g / '' @ format_f 0 (dict_get (goals dy) ''protein'' 0) @ ''g'' @ nl
          @ nl
          @ ''## Exercise'' @ nl
          @ ''- **Activities**: '' @ show_nat (length (all_exercise_entries dy)) @ nl
          @ ''- **Duration**: ''
            @ format_f 0 (sum_list (map minutes_or_zero (all_exercise_entries dy)))
            @ '' minutes'' @ nl
          @ ''- **Calories Burned**: ''
            @ format_f 0 (sum_list (map calories_burned (all_exercise_entries dy)))
            @ '' kcal'' @ nl
          @ nl
          @ ''## Water Intake'' @ nl
          @ ''- **Amount**: '' @ format_f 0 (water dy / 29.5735) @ '' oz (''
            @ format_f 1 (water dy / 236.588) @ '' cups, '' @ format_f 0 (water dy) @ '' ml)'' @ nl
          @ nl
          @ ''## Status'' @ nl
          @ ''- **Day Complete**: '' @ (if complete dy then ''Yes'' else ''No'') @ nl
          @ ''- **Meals Logged**: '' @ show_nat (length (meals dy)) @ nl)
   \<and> (totals dy ''calories'' = Some 1800 \<and> goals dy ''calories'' = Some 2000 \<and>
        water dy = 1500 \<and> length (meals dy) = 2 \<and>
        client_global s = Some c \<and> lib_get_date c (today w) = Inr dy \<longrightarrow>
        (\<exists>out. get_daily_summary w None s =
                 (Inr (text_response out), s\<lparr>requests := requests s @ [today w]\<rparr>) \<and>
               contains out ''Remaining**: 200 kcal'' \<and>
               contains out ''51 oz (6.3 cups, 1500 ml)'' \<and>
               contains out ''Meals Logged**: 2''))"
proof (intro conjI impI)
  show "daily_summary_text target dy = Inr (''# Daily Summary for '' @ strftime_B_d_Y target @ nl
          @ nl
          @ ''## Calories'' @ nl
          @ ''- **Consumed**: '' @ format_f 0 (dict_get (totals dy) ''calories'' 0) @ '' kcal'' @ nl
          @ ''- **Goal**: '' @ format_f 0 (dict_get (goals dy) ''calories'' 0) @ '' kcal'' @ nl
          @ ''- **Remaining**: ''
            @ format_f 0 (dict_get (goals dy) ''calories'' 0 - dict_get (totals dy) ''calories'' 0)
            @ '' kcal'' @ nl
          @ nl
          @ ''## Macronutrients'' @ nl
          @ ''- **Carbohydrates**: '' @ format_f 0 (dict_get (totals dy) ''carbohydrates'' 0)
            @ ''g / '' @ format_f 0 (dict_get (goals dy) ''carbohydrates'' 0) @ ''g'' @ nl
          @ ''- **Fat**: '' @ format_f 0 (dict_get (totals dy) ''fat'' 0)
            @ ''g / '' @ format_f 0 (dict_get (goals dy) ''fat'' 0) @ ''g'' @ nl
          @ ''- **Protein**: '' @ format_f 0 (dict_get (totals dy) ''protein'' 0)
            @ ''g / '' @ format_f 0 (dict_get (goals dy) ''protein'' 0) @ ''g'' @ nl
          @ nl
          @ ''## Exercise'' @ nl
          @ ''- **Activities**: '' @ show_nat (length (all_exercise_entries dy)) @ nl
          @ ''- **Duration**: ''
            @ format_f 0 (sum_list (map minutes_or_zero (all_exercise_entries dy)))
            @ '' minutes'' @ nl
          @ ''- **Calories Burned**: ''
            @ format_f 0 (sum_list (map calories_burned (all_exercise_entries dy)))
            @ '' kcal'' @ nl
          @ nl
          @ ''## Water Intake'' @ nl
          @ ''- **Amount**: '' @ format_f 0 (water dy / 29.5735) @ '' oz (''
            @ format_f 1 (water dy / 236.588) @ '' cups, '' @ format_f 0 (water dy) @ '' ml)'' @ nl
          @ nl
          @ ''## Status'' @ nl
          @ ''- **Day Complete**: '' @ (if complete dy then ''Yes'' else ''No'') @ nl
          @ ''- **Meals Logged**: '' @ show_nat (length (meals dy)) @ nl)"
    by (rule daily_summary_text_eq)
next
  assume a: "totals dy ''calories'' = Some 1800 \<and> goals dy ''calories'' = Some 2000 \<and>
        water dy = 1500 \<and> length (meals dy) = 2 \<and>
        client_global s = Some c \<and> lib_get_date c (today w) = Inr dy"
  then obtain out where out: "daily_summary_text (today w) dy = Inr out"
    "contains out ''Remaining**: 200 kcal''" "contains out ''51 oz (6.3 cups, 1500 ml)''"
    "contains out ''Meals Logged**: 2''"
    using summary_example [of dy "today w"] by blast
  have "parse_date (today w) None = Inr (today w)" by (simp add: parse_date_def)
  from fetch_target_day_ok [OF this, of s c dy] a out(1)
  have "get_daily_summary w None s =
          (Inr (text_response out), s\<lparr>requests := requests s @ [today w]\<rparr>)"
    by (simp add: get_daily_summary_def except_Exception_def)
  with out show "\<exists>out. get_daily_summary w None s =
                 (Inr (text_response out), s\<lparr>requests := requests s @ [today w]\<rparr>) \<and>
               contains out ''Remaining**: 200 kcal'' \<and>
               contains out ''51 oz (6.3 cups, 1500 ml)'' \<and>
               contains out ''Meals Logged**: 2''"
    by blast
qed

theorem daily_summary_reports_witness:
  "totals summary_day ''calories'' = Some 1800 \<and> goals summary_day ''calories'' = Some 2000 \<and>
   water summary_day = 1500 \<and> length (meals summary_day) = 2 \<and>
   client_global summary_server = Some summary_client \<and>
   lib_get_date summary_client (today sample_world) = Inr summary_day \<and>
   (\<exists>out. get_daily_summary sample_world None summary_server =
            (Inr (text_response out),
             summary_server\<lparr>requests := requests summary_server @ [today sample_world]\<rparr>) \<and>
          contains out ''Remaining**: 200 kcal'' \<and>
          contains out ''51 oz (6.3 cups, 1500 ml)'' \<and>
          contains out ''Meals Logged**: 2'')"
proof -
  have h: "totals summary_day ''calories'' = Some 1800 \<and>
        goals summary_day ''calories'' = Some 2000 \<and>
        water summary_day = 1500 \<and> length (meals summary_day) = 2 \<and>
        client_global summary_server = Some summary_client \<and>
        lib_get_date summary_client (today sample_world) = Inr summary_day"
    by (simp add: summary_day_def summary_server_def summary_client_def)
  from daily_summary_reports [of march_15 summary_day summary_server summary_client sample_world] h
  show ?thesis by blast
qed

section \<open>Water intake\<close>

lemma format_2000_oz: "format_f 0 (2000 / 29.5735) = ''68''"
  by (rule format_f_0_eval [where n = 68]) (simp_all add: show_nat.simps digit_char_simps)

lemma format_2000_cups: "format_f 1 (2000 / 236.588) = ''8.5''"
  by (rule format_f_1_eval [where n = 85]) (simp_all add: show_nat.simps digit_char_simps)

lemma format_2000_ml: "format_f 0 2000 = ''2000''"
  by (rule format_f_0_eval [where n = 2000]) (simp_all add: show_nat.simps digit_char_simps)

lemma format_2000_progress: "format_f 0 (2000 / 29.5735 / 64 * 100) = ''106''"
  by (rule format_f_0_eval [where n = 106]) (simp_all add: show_nat.simps digit_char_simps)

lemma water_intake_text_2000:
  assumes w: "water dy = 2000"
  shows "water_intake_text target dy =
        Inr (''# Water Intake for '' @ strftime_B_d_Y target @ nl @ nl
             @ ''**Amount**: 68 oz (8.5 cups / 2000 ml)'' @ nl
             @ nl @ ''*Recommended daily intake: 64 oz (8 cups / 2000 ml)*'' @ nl
             @ ''*Progress: 106% of recommended amount*'' @ nl)"
proof -
  have "0 < water dy" using w by simp
  from water_intake_text_positive [OF this, of target]
  show ?thesis
    unfolding w format_2000_oz format_2000_cups format_2000_ml format_2000_progress
    by simp
qed

text \<open>
  C8, as the spec states it, at 2000 ml: the report would show 67 oz. It shows 68 oz:
  2000 / 29.5735 is 67.63, and the format rounds to the nearest integer.
\<close>

theorem water_2000_shows_68_not_67:
  "water_intake_text march_15 water_day_2000 =
     Inr (''# Water Intake for March 15, 2024'' @ nl @ nl
          @ ''**Amount**: 68 oz (8.5 cups / 2000 ml)'' @ nl
          @ nl @ ''*Recommended daily intake: 64 oz (8 cups / 2000 ml)*'' @ nl
          @ ''*Progress: 106% of recommended amount*'' @ nl)
   \<and> \<not> contains (''# Water Intake for March 15, 2024'' @ nl @ nl
          @ ''**Amount**: 68 oz (8.5 cups / 2000 ml)'' @ nl
          @ nl @ ''*Recommended daily intake: 64 oz (8 cups / 2000 ml)*'' @ nl
          @ ''*Progress: 106% of recommended amount*'' @ nl) ''67 oz''"
proof -
  have w: "water water_day_2000 = 2000" by (simp add: water_day_2000_def)
  show ?thesis
    by (simp add: water_intake_text_2000 [OF w] strftime_march_15 nl_def)
qed

text \<open>
  C8, amended: the water report divides the millilitres by 29.5735 for ounces and by
  236.588 for cups, ounces printed with no decimals and cups with one; for 2000 ml it
  shows 68 oz and 8.5 cups. For an arbitrary amount the numbers are printed from the exact
  quotients: where the code's float quotient is within a float's error of a rounding tie
  it can print the neighbouring digit; 2000 ml is far from one.
\<close>

theorem water_conversion:
  "(0 < water dy \<longrightarrow>
      water_intake_text target dy =
        Inr (''# Water Intake for '' @ strftime_B_d_Y target @ nl @ nl
             @ ''**Amount**: '' @ format_f 0 (water dy / 29.5735) @ '' oz (''
             @ format_f 1 (water dy / 236.588) @ '' cups / '' @ format_f 0 (water dy)
             @ '' ml)'' @ nl
             @ nl @ ''*Recommended daily intake: 64 oz (8 cups / 2000 ml)*'' @ nl
             @ ''*Progress: '' @ format_f 0 (water dy / 29.5735 / 64 * 100)
             @ ''% of recommended amount*'' @ nl))
   \<and> (water dy = 2000 \<longrightarrow>
      water_intake_text target dy =
        Inr (''# Water Intake for '' @ strftime_B_d_Y target @ nl @ nl
             @ ''**Amount**: 68 oz (8.5 cups / 2000 ml)'' @ nl
             @ nl @ ''*Recommended daily intake: 64 oz (8 cups / 2000 ml)*'' @ nl
             @ ''*Progress: 106% of recommended amount*'' @ nl))"
  using water_intake_text_positive [of dy target] water_intake_text_2000 [of dy target]
  by blast

theorem water_conversion_witness:
  "water water_day_2000 = 2000
   \<and> water_intake_text march_15 water_day_2000 =
        Inr (''# Water Intake for '' @ strftime_B_d_Y march_15 @ nl @ nl
             @ ''**Amount**: 68 oz (8.5 cups / 2000 ml)'' @ nl
             @ nl @ ''*Recommended daily intake: 64 oz (8 cups / 2000 ml)*'' @ nl
             @ ''*Progress: 106% of recommended amount*'' @ nl)"
proof -
  have w: "water water_day_2000 = 2000" by (simp add: water_day_2000_def)
  from water_conversion [of water_day_2000 march_15] w show ?thesis by blast
qed

section \<open>The cookie loader\<close>

lemma make_cookie_Inr:
  assumes "make_cookie name data = Inr cookie"
  shows "is_cookie_object data"
proof -
  from assms obtain v where "py_subscript data ''value'' = Inr v"
    by (cases "py_subscript data ''value''") (simp_all add: make_cookie_def)
  then show ?thesis
    by (cases data) (auto simp: py_subscript_def dom_map_of_conv_image_fst [symmetric] split: option.splits)
qed

lemma load_items_Inr:
  "load_items members jar = Inr jar' \<Longrightarrow>
     list_all (\<lambda>(name, data). is_cookie_object data) members"
proof (induction members arbitrary: jar)
  case Nil
  show ?case by simp
next
  case (Cons m members)
  obtain name data where m: "m = (name, data)" by (cases m)
  from Cons.prems m obtain cookie jar1 where
    c: "make_cookie name data = Inr cookie" and r: "load_items members jar1 = Inr jar'"
    by (auto split: sum.splits)
  from make_cookie_Inr [OF c] Cons.IH [OF r] m show ?case by simp
qed

lemma load_malformed:
  assumes "malformed w cookies_json"
  shows "\<exists>e. bindE (json_loads w cookies_json) (\<lambda>cookie_dict.
               bindE (py_items cookie_dict) (\<lambda>items. load_items items [])) = Inl e"
proof (cases "json_loads w cookies_json")
  case (Inl e)
  then show ?thesis by simp
next
  case (Inr j)
  with assms have n: "\<not> well_structured j" by (simp add: malformed_def)
  show ?thesis
  proof (cases j)
    case (JObject members)
    with n have "\<not> list_all (\<lambda>(name, data). is_cookie_object data) members" by simp
    with load_items_Inr [of members "[]"] obtain e where "load_items members [] = Inl e"
      by (cases "load_items members []") auto
    with Inr JObject show ?thesis by (simp add: py_items_def)
  qed (simp_all add: Inr py_items_def)
qed

text \<open>
  C9: with the variable holding the text of \<^verbatim>\<open>{"a": {"value": "x"}}\<close>, the loader returns a
  jar of exactly one cookie, named a, its domain \<^verbatim>\<open>.myfitnesspal.com\<close>, its path
  \<^verbatim>\<open>/\<close>, not secure, and prints nothing. With the variable holding a text that is
  not empty and is malformed (it does not parse, or not to an object of objects that have a
  value), the loader raises nothing, prints exactly one line, a warning, and returns
  \<^verbatim>\<open>None\<close>; the client is then built by the library's call without a jar, which reads
  the browser's cookies.
\<close>

theorem cookie_loader:
  \<open>(json_loads w good = Inr (JObject [(''a'', JObject [(''value'', JString ''x'')])]) \<and>
    good \<noteq> [] \<longrightarrow>
      load_cookies_from_env (w\<lparr>MFP_COOKIES := Some good\<rparr>) =
        (Inr (Some [\<lparr>cookie_name = ''a'', cookie_value = JString ''x'',
                     cookie_domain = JString ''.myfitnesspal.com'', domain_initial_dot = False,
                     cookie_path = JString ''/'', cookie_secure = JBool False\<rparr>]),
         []))
   \<and> (malformed w bad \<and> bad \<noteq> [] \<longrightarrow>
        (\<exists>e. load_cookies_from_env (w\<lparr>MFP_COOKIES := Some bad\<rparr>) =
               (Inr None, [''Warning: Failed to load cookies from environment: '' @ str_exn e])
           \<and> MyFitnessPalClient_init (w\<lparr>MFP_COOKIES := Some bad\<rparr>) =
               (bindE (myfitnesspal_Client w None) (\<lambda>lib. Inr (MyFitnessPalClient lib)),
                [''Warning: Failed to load cookies from environment: '' @ str_exn e])))\<close>
proof (intro conjI impI)
  assume "json_loads w good = Inr (JObject [(''a'', JObject [(''value'', JString ''x'')])]) \<and>
    good \<noteq> []"
  then show "load_cookies_from_env (w\<lparr>MFP_COOKIES := Some good\<rparr>) =
        (Inr (Some [\<lparr>cookie_name = ''a'', cookie_value = JString ''x'',
                     cookie_domain = JString ''.myfitnesspal.com'', domain_initial_dot = False,
                     cookie_path = JString ''/'', cookie_secure = JBool False\<rparr>]),
         [])"
    by (simp add: load_cookies_from_env_def py_items_def make_cookie_def py_subscript_def
        py_get_def py_startswith_def set_cookie_def hashable_def)
next
  assume a: "malformed w bad \<and> bad \<noteq> []"
  with load_malformed [of w bad] obtain e where
    e: "bindE (json_loads w bad) (\<lambda>cookie_dict.
          bindE (py_items cookie_dict) (\<lambda>items. load_items items [])) = Inl e"
    by blast
  with a have l: "load_cookies_from_env (w\<lparr>MFP_COOKIES := Some bad\<rparr>) =
      (Inr None, [''Warning: Failed to load cookies from environment: '' @ str_exn e])"
    by (simp add: load_cookies_from_env_def)
  then have "MyFitnessPalClient_init (w\<lparr>MFP_COOKIES := Some bad\<rparr>) =
      (bindE (myfitnesspal_Client w None) (\<lambda>lib. Inr (MyFitnessPalClient lib)),
       [''Warning: Failed to load cookies from environment: '' @ str_exn e])"
    by (simp add: MyFitnessPalClient_init_def)
  with l show "\<exists>e. load_cookies_from_env (w\<lparr>MFP_COOKIES := Some bad\<rparr>) =
               (Inr None, [''Warning: Failed to load cookies from environment: '' @ str_exn e])
           \<and> MyFitnessPalClient_init (w\<lparr>MFP_COOKIES := Some bad\<rparr>) =
               (bindE (myfitnesspal_Client w None) (\<lambda>lib. Inr (MyFitnessPalClient lib)),
                [''Warning: Failed to load cookies from environment: '' @ str_exn e])"
    by blast
qed

theorem cookie_loader_witness:
  \<open>load_cookies_from_env (cookie_world\<lparr>MFP_COOKIES := Some ''{"a": {"value": "x"}}''\<rparr>) =
     (Inr (Some [\<lparr>cookie_name = ''a'', cookie_value = JString ''x'',
                  cookie_domain = JString ''.myfitnesspal.com'', domain_initial_dot = False,
                  cookie_path = JString ''/'', cookie_secure = JBool False\<rparr>]),
      [])
   \<and> malformed cookie_world ''{"a": '' \<and> malformed cookie_world ''["a"]''
   \<and> load_cookies_from_env (cookie_world\<lparr>MFP_COOKIES := Some ''{"a": ''\<rparr>) =
       (Inr None,
        [''Warning: Failed to load cookies from environment: Expecting value: line 1 column 1 (char 0)''])
   \<and> load_cookies_from_env (cookie_world\<lparr>MFP_COOKIES := Some ''["a"]''\<rparr>) =
       (Inr None,
        [''Warning: Failed to load cookies from environment: object has no attribute items''])\<close>
proof -
  have g: \<open>json_loads cookie_world ''{"a": {"value": "x"}}'' =
      Inr (JObject [(''a'', JObject [(''value'', JString ''x'')])])\<close>
    by (simp add: cookie_world_def)
  have b1: \<open>malformed cookie_world ''{"a": ''\<close>
    by (simp add: malformed_def cookie_world_def)
  have b2: \<open>malformed cookie_world ''["a"]''\<close>
    by (simp add: malformed_def cookie_world_def)
  from cookie_loader [of cookie_world \<open>''{"a": {"value": "x"}}''\<close> \<open>''{"a": ''\<close>] g b1
  obtain e1 where 1: \<open>load_cookies_from_env
        (cookie_world\<lparr>MFP_COOKIES := Some ''{"a": {"value": "x"}}''\<rparr>) =
     (Inr (Some [\<lparr>cookie_name = ''a'', cookie_value = JString ''x'',
                  cookie_domain = JString ''.myfitnesspal.com'', domain_initial_dot = False,
                  cookie_path = JString ''/'', cookie_secure = JBool False\<rparr>]),
      [])\<close>
    and 2: \<open>load_cookies_from_env (cookie_world\<lparr>MFP_COOKIES := Some ''{"a": ''\<rparr>) =
               (Inr None, [''Warning: Failed to load cookies from environment: '' @ str_exn e1])\<close>
    by auto
  have 3: \<open>load_cookies_from_env (cookie_world\<lparr>MFP_COOKIES := Some ''{"a": ''\<rparr>) =
       (Inr None,
        [''Warning: Failed to load cookies from environment: Expecting value: line 1 column 1 (char 0)''])\<close>
    by (simp add: load_cookies_from_env_def cookie_world_def)
  have 4: \<open>load_cookies_from_env (cookie_world\<lparr>MFP_COOKIES := Some ''["a"]''\<rparr>) =
       (Inr None,
        [''Warning: Failed to load cookies from environment: object has no attribute items''])\<close>
    by (simp add: load_cookies_from_env_def cookie_world_def py_items_def)
  from 1 b1 b2 3 4 show ?thesis by simp
qed

section \<open>Divisions\<close>

lemma daily_exercise_text_Inr: "\<exists>t. daily_exercise_text target dy = Inr t"
  by (simp add: daily_exercise_text_def Let_def split: prod.splits)

lemma water_intake_text_Inr: "\<exists>t. water_intake_text target dy = Inr t"
  by (cases "0 < water dy") (simp_all add: water_intake_text_positive water_intake_text_none)

lemma date_range_summary_text_Inr: "\<exists>t. date_range_summary_text start end_d daily_data = Inr t"
  by (cases "daily_data = []")
     (simp_all add: date_range_summary_text_empty date_range_summary_text_eq)

text \<open>
  C10: no formatter divides by zero, whatever the day or the sequence of days. Every
  division is modelled as raising on a zero divisor, and every formatter returns its text:
  the percent of a nutrient is computed only for a goal above zero (otherwise the bare
  value is printed), the range summary divides by the number of days only when there is
  at least one (the empty sequence returns its message), the water progress is computed
  only for a positive amount, and the other divisors are the constants 29.5735, 236.588
  and 64.
\<close>

theorem formatters_never_divide_by_zero:
  "format_nutrient tot gl name display_name unit_str =
     Inr (nutrient_line tot gl name display_name unit_str)
   \<and> (\<not> 0 < dict_get gl name 0 \<longrightarrow>
        format_nutrient tot gl name display_name unit_str =
          Inr (''- **'' @ display_name @ ''**: '' @ format_f 0 (dict_get tot name 0)
               @ unit_str @ nl))
   \<and> (\<exists>t. daily_summary_text target dy = Inr t)
   \<and> (\<exists>t. daily_meals_text target dy = Inr t)
   \<and> (\<exists>t. daily_exercise_text target dy = Inr t)
   \<and> (\<exists>t. daily_macros_text target dy = Inr t)
   \<and> (\<exists>t. water_intake_text target dy = Inr t)
   \<and> (\<not> 0 < water dy \<longrightarrow>
        water_intake_text target dy =
          Inr (''# Water Intake for '' @ strftime_B_d_Y target @ nl @ nl
               @ ''No water intake logged for this day.'' @ nl
               @ nl @ ''*Recommended daily intake: 64 oz (8 cups / 2000 ml)*'' @ nl))
   \<and> (\<exists>t. date_range_summary_text start end_d daily_data = Inr t)
   \<and> date_range_summary_text start end_d [] =
        Inr ''No data available for the specified date range.''"
proof (intro conjI impI)
  show "format_nutrient tot gl name display_name unit_str =
     Inr (nutrient_line tot gl name display_name unit_str)"
    by (rule format_nutrient_eq)
  show "\<exists>t. daily_summary_text target dy = Inr t"
    by (simp add: daily_summary_text_eq)
  show "\<exists>t. daily_meals_text target dy = Inr t"
    by (simp add: daily_meals_text_def)
  show "\<exists>t. daily_exercise_text target dy = Inr t"
    by (rule daily_exercise_text_Inr)
  show "\<exists>t. daily_macros_text target dy = Inr t"
    by (simp add: daily_macros_text_eq)
  show "\<exists>t. water_intake_text target dy = Inr t"
    by (rule water_intake_text_Inr)
  show "\<exists>t. date_range_summary_text start end_d daily_data = Inr t"
    by (rule date_range_summary_text_Inr)
  show "date_range_summary_text start end_d [] =
        Inr ''No data available for the specified date range.''"
    by (rule date_range_summary_text_empty)
next
  assume "\<not> 0 < dict_get gl name 0"
  then show "format_nutrient tot gl name display_name unit_str =
          Inr (''- **'' @ display_name @ ''**: '' @ format_f 0 (dict_get tot name 0)
               @ unit_str @ nl)"
    by (simp add: format_nutrient_def Let_def)
next
  assume "\<not> 0 < water dy"
  then show "water_intake_text target dy =
          Inr (''# Water Intake for '' @ strftime_B_d_Y target @ nl @ nl
               @ ''No water intake logged for this day.'' @ nl
               @ nl @ ''*Recommended daily intake: 64 oz (8 cups / 2000 ml)*'' @ nl)"
    by (rule water_intake_text_none)
qed

theorem formatters_never_divide_by_zero_witness:
  "\<not> 0 < dict_get (goals macro_day) ''fat'' 0
   \<and> format_nutrient (totals macro_day) (goals macro_day) ''fat'' ''Fat'' ''g'' =
       Inr (''- **Fat**: '' @ format_f 0 60 @ ''g'' @ nl)
   \<and> \<not> 0 < water macro_day
   \<and> water_intake_text march_15 macro_day =
       Inr (''# Water Intake for '' @ strftime_B_d_Y march_15 @ nl @ nl
            @ ''No water intake logged for this day.'' @ nl
            @ nl @ ''*Recommended daily intake: 64 oz (8 cups / 2000 ml)*'' @ nl)
   \<and> (\<exists>t. date_range_summary_text march_15 march_15 [collect_day macro_day] = Inr t)"
proof -
  have g: "\<not> 0 < dict_get (goals macro_day) ''fat'' 0"
    and t: "dict_get (totals macro_day) ''fat'' 0 = 60"
    and w: "\<not> 0 < water macro_day"
    by (simp_all add: macro_day_def dict_get_def)
  note f = formatters_never_divide_by_zero
    [of "totals macro_day" "goals macro_day" "''fat''" "''Fat''" "''g''" march_15 macro_day
        march_15 march_15 "[collect_day macro_day]"]
  from f [THEN conjunct2, THEN conjunct1] g
  have "format_nutrient (totals macro_day) (goals macro_day) ''fat'' ''Fat'' ''g'' =
       Inr (''- **Fat**: '' @ format_f 0 (dict_get (totals macro_day) ''fat'' 0) @ ''g'' @ nl)"
    by simp
  moreover from f w have "water_intake_text march_15 macro_day =
       Inr (''# Water Intake for '' @ strftime_B_d_Y march_15 @ nl @ nl
            @ ''No water intake logged for this day.'' @ nl
            @ nl @ ''*Recommended daily intake: 64 oz (8 cups / 2000 ml)*'' @ nl)"
    by blast
  moreover from f
  have "\<exists>t. date_range_summary_text march_15 march_15 [collect_day macro_day] = Inr t"
    by blast
  ultimately show ?thesis using g w unfolding t by simp
qed

end
